theory Spec2Isabelle
  imports Main "HOL-Library.Word"
begin

section \<open>The image2url client: an embedding of its upload path\<close>

text \<open>
  The client library validates an image payload, derives an object key, sends one
  PutObject command to an S3-compatible store and returns the public URL.  The
  definitions below follow the compiled module function by function and keep its names.

  Conventions of the embedding:
  \<^item> a JavaScript string is a \<^typ>\<open>string\<close>, its characters read as Latin-1 code
    units (strings with a character above \<open>U+00FF\<close> are left out);
  \<^item> an optional value (\<open>undefined\<close>) is an \<^typ>\<open>'a option\<close>; \<open>a ?? b\<close> is a case
    distinction on \<open>None\<close>, and truthiness of a string is \<open>s \<noteq> []\<close>;
  \<^item> a thrown \<open>Error\<close> or a rejected promise is an \<open>Inl\<close> value, one constructor of
    \<open>upload_error\<close> per \<open>throw\<close> of the module;
  \<^item> a byte count is a \<^typ>\<open>nat\<close> and the configured ceiling an \<^typ>\<open>int\<close>: the
    configuration accepts any number, negative ones included (fractions and \<open>NaN\<close> are
    left out);
  \<^item> the clock, the random UUID, the file system and the remote store are read from an
    explicit environment, and every operation returns, beside its result, the list of
    PutObject commands it has sent.
\<close>

subsection \<open>String primitives of the JavaScript runtime\<close>

type_synonym byte = "8 word"

definition startsWith :: "string \<Rightarrow> string \<Rightarrow> bool" where
  "startsWith s p = (take (length p) s = p)"

text \<open>
  \<open>String.prototype.toLowerCase\<close>.  Below \<open>U+0100\<close> the capital letters are \<open>A\<close> to
  \<open>Z\<close> and the Latin-1 capitals \<open>U+00C0\<close> to \<open>U+00DE\<close> without the multiplication sign
  \<open>U+00D7\<close>; each goes to the character 32 places further on.  Every other character
  stays.
\<close>

definition upper_letters :: string where
  "upper_letters =
     ''ABCDEFGHIJKLMNOPQRSTUVWXYZ''
     @ [CHR 0xC0, CHR 0xC1, CHR 0xC2, CHR 0xC3, CHR 0xC4, CHR 0xC5, CHR 0xC6, CHR 0xC7,
        CHR 0xC8, CHR 0xC9, CHR 0xCA, CHR 0xCB, CHR 0xCC, CHR 0xCD, CHR 0xCE, CHR 0xCF,
        CHR 0xD0, CHR 0xD1, CHR 0xD2, CHR 0xD3, CHR 0xD4, CHR 0xD5, CHR 0xD6]
     @ [CHR 0xD8, CHR 0xD9, CHR 0xDA, CHR 0xDB, CHR 0xDC, CHR 0xDD, CHR 0xDE]"

definition lower_letters :: string where
  "lower_letters =
     ''abcdefghijklmnopqrstuvwxyz''
     @ [CHR 0xE0, CHR 0xE1, CHR 0xE2, CHR 0xE3, CHR 0xE4, CHR 0xE5, CHR 0xE6, CHR 0xE7,
        CHR 0xE8, CHR 0xE9, CHR 0xEA, CHR 0xEB, CHR 0xEC, CHR 0xED, CHR 0xEE, CHR 0xEF,
        CHR 0xF0, CHR 0xF1, CHR 0xF2, CHR 0xF3, CHR 0xF4, CHR 0xF5, CHR 0xF6]
     @ [CHR 0xF8, CHR 0xF9, CHR 0xFA, CHR 0xFB, CHR 0xFC, CHR 0xFD, CHR 0xFE]"

definition lower_char :: "char \<Rightarrow> char" where
  "lower_char c =
     (case map_of (zip upper_letters lower_letters) c of
        Some l \<Rightarrow> l
      | None \<Rightarrow> c)"

definition toLowerCase :: "string \<Rightarrow> string" where
  "toLowerCase s = map lower_char s"

text \<open>
  \<open>String.prototype.trim\<close> removes white space and line terminators from both ends:
  tab, line feed, vertical tab, form feed, carriage return, space and no-break space.
\<close>

definition is_space :: "char \<Rightarrow> bool" where
  "is_space c = ((of_char c :: nat) \<in> {9, 10, 11, 12, 13, 32, 160})"

definition trim :: "string \<Rightarrow> string" where
  "trim s = rev (dropWhile is_space (rev (dropWhile is_space s)))"

text \<open>The regular expressions \<open>/^\/+/\<close> and \<open>/\/+$/\<close>, replaced by the empty string.\<close>

definition is_slash :: "char \<Rightarrow> bool" where
  "is_slash c = (c = CHR ''/'')"

definition dropLeadingSlashes :: "string \<Rightarrow> string" where
  "dropLeadingSlashes s = dropWhile is_slash s"

definition dropTrailingSlashes :: "string \<Rightarrow> string" where
  "dropTrailingSlashes s = rev (dropWhile is_slash (rev s))"

text \<open>The rendering of an integer inside a template string: plain decimal digits.\<close>

definition digit_char :: "nat \<Rightarrow> char" where
  "digit_char d = ''0123456789'' ! d"

fun string_of_nat :: "nat \<Rightarrow> string" where
  "string_of_nat n =
     (if n < 10 then [digit_char n]
      else string_of_nat (n div 10) @ [digit_char (n mod 10)])"

declare string_of_nat.simps [simp del]

definition string_of_int :: "int \<Rightarrow> string" where
  "string_of_int i =
     (if i < 0 then CHR ''-'' # string_of_nat (nat (- i)) else string_of_nat (nat i))"

subsection \<open>\<open>node:path\<close> (POSIX flavour)\<close>

text \<open>
  \<open>path.basename\<close> returns the last portion of a path, trailing separators ignored.
  \<open>path.extname\<close> returns that portion from its last dot on; it is empty when the
  portion has no dot, when its only dot is its first character, and when the portion
  is \<open>..\<close>.
\<close>

definition basename :: "string \<Rightarrow> string" where
  "basename p = rev (takeWhile (\<lambda>c. \<not> is_slash c) (dropWhile is_slash (rev p)))"

definition extname :: "string \<Rightarrow> string" where
  "extname p =
     (let part = basename p;
          ext = CHR ''.'' # rev (takeWhile (\<lambda>c. c \<noteq> CHR ''.'') (rev part))
      in if CHR ''.'' \<notin> set part then []
         else if length ext = length part then []
         else if part = ''..'' then []
         else ext)"

subsection \<open>Constants and lookup tables\<close>

definition DEFAULT_MAX_SIZE :: int where
  "DEFAULT_MAX_SIZE = 2 * 1024 * 1024"

definition DEFAULT_CACHE_CONTROL :: string where
  "DEFAULT_CACHE_CONTROL = ''public, max-age=31536000''"

definition MIME_BY_EXT :: "(string \<times> string) list" where
  "MIME_BY_EXT =
     [(''.jpg'', ''image/jpeg''),
      (''.jpeg'', ''image/jpeg''),
      (''.png'', ''image/png''),
      (''.gif'', ''image/gif''),
      (''.webp'', ''image/webp''),
      (''.bmp'', ''image/bmp''),
      (''.svg'', ''image/svg+xml''),
      (''.tif'', ''image/tiff''),
      (''.tiff'', ''image/tiff''),
      (''.ico'', ''image/x-icon'')]"

definition EXT_BY_MIME :: "(string \<times> string) list" where
  "EXT_BY_MIME =
     [(''image/jpeg'', ''jpg''),
      (''image/png'', ''png''),
      (''image/gif'', ''gif''),
      (''image/webp'', ''webp''),
      (''image/bmp'', ''bmp''),
      (''image/svg+xml'', ''svg''),
      (''image/tiff'', ''tiff''),
      (''image/x-icon'', ''ico'')]"

text \<open>
  Both tables are plain object literals, so a property read also sees what
  \<open>Object.prototype\<close> provides.  Every value read from \<open>EXT_BY_MIME\<close> is interpolated
  into a template string, so an inherited property is modelled by its rendering there:
  a built-in method prints as its native-function source (\<open>constructor\<close> is the
  function \<open>Object\<close>), \<open>__proto__\<close> as an object.  \<open>MIME_BY_EXT\<close> is only read at a
  result of \<open>path.extname\<close>, which is empty or starts with a dot, and no inherited name
  does.
\<close>

definition Object_prototype_methods :: "string list" where
  "Object_prototype_methods =
     [''hasOwnProperty'', ''isPrototypeOf'', ''propertyIsEnumerable'',
      ''toLocaleString'', ''toString'', ''valueOf'', ''__defineGetter__'',
      ''__defineSetter__'', ''__lookupGetter__'', ''__lookupSetter__'']"

definition inherited_property :: "string \<Rightarrow> string option" where
  "inherited_property k =
     (if k = ''constructor'' then Some ''function Object() { [native code] }''
      else if k \<in> set Object_prototype_methods
      then Some (''function '' @ k @ ''() { [native code] }'')
      else if k = ''__proto__'' then Some ''[object Object]''
      else None)"

definition MIME_BY_EXT_get :: "string \<Rightarrow> string option" where
  "MIME_BY_EXT_get ext = map_of MIME_BY_EXT ext"

definition EXT_BY_MIME_get :: "string \<Rightarrow> string option" where
  "EXT_BY_MIME_get mime =
     (case map_of EXT_BY_MIME mime of
        Some e \<Rightarrow> Some e
      | None \<Rightarrow> inherited_property mime)"

subsection \<open>\<open>Buffer.from(text, 'base64')\<close>\<close>

text \<open>
  The runtime's base64 decoder never fails.  It reads the standard and the URL-safe
  alphabet, skips every other character, stops at the first \<open>=\<close>, and turns each
  group of four sextets into three bytes; a final group of two or three sextets gives
  one or two bytes, a single left-over sextet gives none.
\<close>

definition base64_alphabet :: string where
  "base64_alphabet =
     ''ABCDEFGHIJKLMNOPQRSTUVWXYZabcdefghijklmnopqrstuvwxyz0123456789+/''"

definition unbase64 :: "char \<Rightarrow> nat option" where
  "unbase64 c =
     (if c = CHR ''-'' then Some 62
      else if c = CHR ''_'' then Some 63
      else map_of (zip base64_alphabet [0 ..< 64]) c)"

fun decode_sextets :: "nat list \<Rightarrow> byte list" where
  "decode_sextets (a # b # c # d # rest) =
     of_nat (a * 4 + b div 16) # of_nat ((b mod 16) * 16 + c div 4)
       # of_nat ((c mod 4) * 64 + d) # decode_sextets rest"
| "decode_sextets [a, b, c] =
     [of_nat (a * 4 + b div 16), of_nat ((b mod 16) * 16 + c div 4)]"
| "decode_sextets [a, b] = [of_nat (a * 4 + b div 16)]"
| "decode_sextets _ = []"

definition Buffer_from_base64 :: "string \<Rightarrow> byte list" where
  "Buffer_from_base64 s =
     decode_sextets (List.map_filter unbase64 (takeWhile (\<lambda>c. c \<noteq> CHR ''='') s))"

text \<open>
  For comparison with what \<open>uploadBase64\<close> accepts: a text made only of characters of
  the two base64 alphabets, padding and white space.
\<close>

definition only_base64_characters :: "string \<Rightarrow> bool" where
  "only_base64_characters s =
     list_all (\<lambda>c. unbase64 c \<noteq> None \<or> c = CHR ''='' \<or> is_space c) s"

subsection \<open>Data of the module\<close>

record Image2UrlConfig =
  accountId :: string
  accessKeyId :: string
  secretAccessKey :: string
  bucket :: string
  publicUrl :: string
  keyPrefix :: "string option"
  maxSizeBytes :: "int option"
  cacheControl :: "string option"

record UploadOptions =
  key :: "string option"
  originalName :: "string option"
  contentType :: "string option"
  metadata :: "(string \<rightharpoonup> string) option"

record UploadResult =
  url :: string
  result_key :: string
  result_bucket :: string
  result_size :: nat
  result_type :: string
  etag :: "string option"

text \<open>The S3 client the constructor creates, and the fields of the client object.\<close>

record S3Client =
  region :: string
  endpoint :: string
  credentials_accessKeyId :: string
  credentials_secretAccessKey :: string

record Image2UrlClient =
  this_client :: S3Client
  this_bucket :: string
  this_publicUrl :: string
  this_prefix :: string
  this_maxSize :: int
  this_cacheControl :: string

record PutObjectCommand =
  Bucket :: string
  Key :: string
  Body :: "byte list"
  ContentType :: string
  ContentLength :: nat
  CacheControl :: string
  Metadata :: "string \<rightharpoonup> string"

text \<open>
  The three shapes \<open>uploadBuffer\<close> accepts; a \<open>Uint8Array\<close> is a window (offset and
  length) on an underlying array buffer.
\<close>

datatype binary =
    Buffer "byte list"
  | ArrayBuffer "byte list"
  | Uint8Array "byte list" nat nat

text \<open>
  One constructor for each way the module fails: the \<open>throw\<close> statements in the order of
  the source, the rejection of \<open>fs.stat\<close> and the rejection of \<open>client.send\<close>.
\<close>

datatype upload_error =
    MissingConfig string
  | StatFailed string
  | PathNotAFile string
  | EmptyFile
  | FileTooLarge int
  | UndeterminedContentType
  | NotAnImage string
  | SendFailed string

fun validation_error :: "upload_error \<Rightarrow> bool" where
  "validation_error (MissingConfig _) = True"
| "validation_error EmptyFile = True"
| "validation_error (FileTooLarge _) = True"
| "validation_error UndeterminedContentType = True"
| "validation_error (NotAnImage _) = True"
| "validation_error (StatFailed _) = False"
| "validation_error (PathNotAFile _) = False"
| "validation_error (SendFailed _) = False"

text \<open>
  What the module reads from outside: the clock (\<open>Date.now()\<close> in milliseconds, and the
  ISO rendering of \<open>new Date()\<close>), \<open>randomUUID()\<close>, the file system, and the answer of
  the store to a PutObject command, which is a rejection or an output with an optional
  \<open>ETag\<close>.
\<close>

datatype fs_entry = RegularFile "byte list" | OtherEntry

datatype send_result = Rejected string | PutObjectOutput "string option"

record environment =
  Date_now :: int
  randomUUID :: string
  toISOString :: string
  fs :: "string \<rightharpoonup> fs_entry"
  send :: "S3Client \<Rightarrow> PutObjectCommand \<Rightarrow> send_result"

text \<open>An operation's outcome: what it returns or throws, and the commands it has sent.\<close>

type_synonym outcome = "(upload_error + UploadResult) \<times> PutObjectCommand list"

subsection \<open>Helper functions of the module\<close>

definition requireValue :: "string \<Rightarrow> string \<Rightarrow> upload_error + string" where
  "requireValue v field = (if v = [] then Inl (MissingConfig field) else Inr v)"

definition trimTrailingSlash :: "string \<Rightarrow> string" where
  "trimTrailingSlash v = dropTrailingSlashes v"

definition trimSlashes :: "string \<Rightarrow> string" where
  "trimSlashes v = dropTrailingSlashes (dropLeadingSlashes v)"

text \<open>\<open>normalizeKey\<close>: leading slashes go first, then every backslash becomes a slash.\<close>

definition normalizeKey :: "string \<Rightarrow> string" where
  "normalizeKey k =
     map (\<lambda>c. if c = CHR 0x5C then CHR ''/'' else c) (dropLeadingSlashes k)"

definition buildPublicUrl :: "string \<Rightarrow> string \<Rightarrow> string" where
  "buildPublicUrl base k =
     (let normalizedBase = trimTrailingSlash base;
          normalizedKey = dropLeadingSlashes k
      in normalizedBase @ ''/'' @ normalizedKey)"

text \<open>
  \<open>ensureImageContentType\<close>: a falsy string is the empty one; the value it returns is
  its argument.
\<close>

definition ensureImageContentType :: "string \<Rightarrow> upload_error + string" where
  "ensureImageContentType ct =
     (if ct = [] then Inl UndeterminedContentType
      else if \<not> startsWith ct ''image/'' then Inl (NotAnImage ct)
      else Inr ct)"

definition guessContentType :: "string option \<Rightarrow> string option" where
  "guessContentType oname =
     (case oname of
        None \<Rightarrow> None
      | Some n \<Rightarrow>
          if n = [] then None
          else let ext = toLowerCase (extname n) in MIME_BY_EXT_get ext)"

text \<open>
  \<open>guessExtension\<close>: \<open>replace('.', '')\<close> removes the first dot of the extension, which
  is where \<open>path.extname\<close> puts the only one.
\<close>

definition remove_first_dot :: "string \<Rightarrow> string" where
  "remove_first_dot s =
     takeWhile (\<lambda>c. c \<noteq> CHR ''.'') s @ drop 1 (dropWhile (\<lambda>c. c \<noteq> CHR ''.'') s)"

definition guessExtension :: "string option \<Rightarrow> string \<Rightarrow> string option" where
  "guessExtension oname ct =
     (let nameExt =
            (case oname of
               None \<Rightarrow> []
             | Some n \<Rightarrow> if n = [] then [] else toLowerCase (remove_first_dot (extname n)))
      in if nameExt \<noteq> [] then Some nameExt else EXT_BY_MIME_get ct)"

definition toBuffer :: "binary \<Rightarrow> byte list" where
  "toBuffer d =
     (case d of
        Buffer b \<Rightarrow> b
      | ArrayBuffer b \<Rightarrow> b
      | Uint8Array buf byteOffset byteLength \<Rightarrow> take byteLength (drop byteOffset buf))"

text \<open>
  \<open>decodeBase64\<close>.  The pattern \<open>/^data:([^;]+);base64,(.+)$/\<close> matches in one way
  only: the first group cannot hold a semicolon, so it runs from \<open>data:\<close> to the first
  semicolon and must not be empty; \<open>;base64,\<close> follows at once; the second group is
  the rest, not empty and free of line terminators (which \<open>.\<close> does not match).
\<close>

record decoded =
  decoded_buffer :: "byte list"
  decoded_contentType :: "string option"
  decoded_originalName :: "string option"

definition is_line_terminator :: "char \<Rightarrow> bool" where
  "is_line_terminator c = (c = CHR 0x0A \<or> c = CHR 0x0D)"

definition dataUriMatch :: "string \<Rightarrow> (string \<times> string) option" where
  "dataUriMatch v =
     (if \<not> startsWith v ''data:'' then None
      else let rest = drop 5 v;
               mime = takeWhile (\<lambda>c. c \<noteq> CHR '';'') rest;
               after = drop (length mime) rest;
               encoded = drop 8 after
           in if mime \<noteq> [] \<and> startsWith after '';base64,'' \<and> encoded \<noteq> []
                 \<and> \<not> list_ex is_line_terminator encoded
              then Some (mime, encoded) else None)"

definition decodeBase64 :: "string \<Rightarrow> decoded" where
  "decodeBase64 input =
     (let v = trim input in
      case dataUriMatch v of
        Some (mime, encoded) \<Rightarrow>
          \<lparr>decoded_buffer = Buffer_from_base64 encoded,
           decoded_contentType = Some mime,
           decoded_originalName =
             Some (''upload.'' @ (case EXT_BY_MIME_get mime of Some e \<Rightarrow> e | None \<Rightarrow> ''jpg''))\<rparr>
      | None \<Rightarrow>
          \<lparr>decoded_buffer = Buffer_from_base64 v,
           decoded_contentType = None,
           decoded_originalName = None\<rparr>)"

definition buildMetadata ::
  "environment \<Rightarrow> (string \<rightharpoonup> string) option \<Rightarrow> string option \<Rightarrow> (string \<rightharpoonup> string)" where
  "buildMetadata env md oname =
     (let result0 = (case md of Some m \<Rightarrow> m | None \<Rightarrow> Map.empty);
          result1 =
            (case oname of
               None \<Rightarrow> result0
             | Some n \<Rightarrow> if n = [] then result0 else result0(''original-name'' \<mapsto> n))
      in result1(''upload-time'' \<mapsto> toISOString env))"

subsection \<open>The client\<close>

text \<open>
  The constructor checks its required fields in the order of the source: bucket,
  public URL, then the three credentials.
\<close>

definition new_Image2UrlClient :: "Image2UrlConfig \<Rightarrow> upload_error + Image2UrlClient" where
  "new_Image2UrlClient config =
     (case requireValue (bucket config) ''bucket'' of
        Inl e \<Rightarrow> Inl e
      | Inr b \<Rightarrow>
     (case requireValue (publicUrl config) ''publicUrl'' of
        Inl e \<Rightarrow> Inl e
      | Inr pu \<Rightarrow>
     (case requireValue (accountId config) ''accountId'' of
        Inl e \<Rightarrow> Inl e
      | Inr account \<Rightarrow>
     (case requireValue (accessKeyId config) ''accessKeyId'' of
        Inl e \<Rightarrow> Inl e
      | Inr access \<Rightarrow>
     (case requireValue (secretAccessKey config) ''secretAccessKey'' of
        Inl e \<Rightarrow> Inl e
      | Inr secret \<Rightarrow>
          Inr \<lparr>this_client =
                 \<lparr>region = ''auto'',
                  endpoint = ''https://'' @ account @ ''.r2.cloudflarestorage.com'',
                  credentials_accessKeyId = access,
                  credentials_secretAccessKey = secret\<rparr>,
               this_bucket = b,
               this_publicUrl = trimTrailingSlash pu,
               this_prefix =
                 trimSlashes (case keyPrefix config of Some p \<Rightarrow> p | None \<Rightarrow> ''images''),
               this_maxSize =
                 (case maxSizeBytes config of Some n \<Rightarrow> n | None \<Rightarrow> DEFAULT_MAX_SIZE),
               this_cacheControl =
                 (case cacheControl config of Some c \<Rightarrow> c | None \<Rightarrow> DEFAULT_CACHE_CONTROL)\<rparr>)))))"

text \<open>
  \<open>buildKey\<close>: a key that is present, not empty and not blank is normalised and used;
  otherwise the key is generated from the clock and a fresh UUID.
\<close>

definition generatedFilename :: "environment \<Rightarrow> string \<Rightarrow> string" where
  "generatedFilename env extension =
     string_of_int (Date_now env) @ ''-'' @ randomUUID env @ ''.'' @ extension"

definition buildKey ::
  "Image2UrlClient \<Rightarrow> environment \<Rightarrow> string option \<Rightarrow> string option \<Rightarrow> string \<Rightarrow> string" where
  "buildKey this env k oname ct =
     (let generated =
            (let extension = (case guessExtension oname ct of Some e \<Rightarrow> e | None \<Rightarrow> ''jpg'');
                 filename = generatedFilename env extension
             in if this_prefix this \<noteq> [] then this_prefix this @ ''/'' @ filename
                else filename)
      in case k of
           None \<Rightarrow> generated
         | Some k' \<Rightarrow>
             if k' \<noteq> [] \<and> length (trim k') > 0 then normalizeKey k' else generated)"

text \<open>
  The content type \<open>uploadBuffer\<close> hands to \<open>ensureImageContentType\<close>:
  \<open>options?.contentType ?? guessContentType(options?.originalName) ?? 'image/jpeg'\<close>.
\<close>

definition resolvedContentType :: "UploadOptions \<Rightarrow> string" where
  "resolvedContentType options =
     (case contentType options of
        Some c \<Rightarrow> c
      | None \<Rightarrow>
          (case guessContentType (originalName options) of
             Some m \<Rightarrow> m
           | None \<Rightarrow> ''image/jpeg''))"

definition uploadBuffer ::
  "Image2UrlClient \<Rightarrow> environment \<Rightarrow> binary \<Rightarrow> UploadOptions \<Rightarrow> outcome" where
  "uploadBuffer this env d options =
     (let buffer = toBuffer d in
      if length buffer = 0 then (Inl EmptyFile, [])
      else if int (length buffer) > this_maxSize this
      then (Inl (FileTooLarge (this_maxSize this)), [])
      else
        case ensureImageContentType (resolvedContentType options) of
          Inl e \<Rightarrow> (Inl e, [])
        | Inr ct \<Rightarrow>
            let k = buildKey this env (key options) (originalName options) ct;
                md = buildMetadata env (metadata options) (originalName options);
                uploadCommand =
                  \<lparr>Bucket = this_bucket this,
                   Key = k,
                   Body = buffer,
                   ContentType = ct,
                   ContentLength = length buffer,
                   CacheControl = this_cacheControl this,
                   Metadata = md\<rparr>
            in case send env (this_client this) uploadCommand of
                 Rejected reason \<Rightarrow> (Inl (SendFailed reason), [uploadCommand])
               | PutObjectOutput tag \<Rightarrow>
                   (Inr \<lparr>url = buildPublicUrl (this_publicUrl this) k,
                         result_key = k,
                         result_bucket = this_bucket this,
                         result_size = length buffer,
                         result_type = ct,
                         etag = tag\<rparr>,
                    [uploadCommand]))"

text \<open>
  \<open>uploadFile\<close> and \<open>uploadBase64\<close> fill in the name and the content type and hand
  over to \<open>uploadBuffer\<close>; the other options travel unchanged.
\<close>

definition uploadFile_options :: "string \<Rightarrow> UploadOptions \<Rightarrow> UploadOptions" where
  "uploadFile_options filePath options =
     (let oname = (case originalName options of Some n \<Rightarrow> n | None \<Rightarrow> basename filePath);
          ct = (case contentType options of
                  Some c \<Rightarrow> Some c
                | None \<Rightarrow> guessContentType (Some oname))
      in options\<lparr>originalName := Some oname, contentType := ct\<rparr>)"

definition uploadFile ::
  "Image2UrlClient \<Rightarrow> environment \<Rightarrow> string \<Rightarrow> UploadOptions \<Rightarrow> outcome" where
  "uploadFile this env filePath options =
     (case fs env filePath of
        None \<Rightarrow> (Inl (StatFailed filePath), [])
      | Some OtherEntry \<Rightarrow> (Inl (PathNotAFile filePath), [])
      | Some (RegularFile buffer) \<Rightarrow>
          uploadBuffer this env (Buffer buffer) (uploadFile_options filePath options))"

definition uploadBase64_options :: "decoded \<Rightarrow> UploadOptions \<Rightarrow> UploadOptions" where
  "uploadBase64_options dec options =
     options
       \<lparr>originalName :=
          (case originalName options of Some n \<Rightarrow> Some n | None \<Rightarrow> decoded_originalName dec),
        contentType :=
          (case contentType options of Some c \<Rightarrow> Some c | None \<Rightarrow> decoded_contentType dec)\<rparr>"

definition uploadBase64 ::
  "Image2UrlClient \<Rightarrow> environment \<Rightarrow> string \<Rightarrow> UploadOptions \<Rightarrow> outcome" where
  "uploadBase64 this env base64 options =
     (let dec = decodeBase64 base64
      in uploadBuffer this env (Buffer (decoded_buffer dec)) (uploadBase64_options dec options))"

subsection \<open>A concrete configuration and environment\<close>

text \<open>
  The inputs at which the theorems below are instantiated: a complete configuration
  with every optional field absent, the client the constructor builds from it, a clock
  at 2023-11-14T22:13:20Z, a file system with a small PNG, an empty file and a
  directory, and a store that accepts every command.
\<close>

definition example_config :: Image2UrlConfig where
  "example_config =
     \<lparr>accountId = ''acct'', accessKeyId = ''AKID'', secretAccessKey = ''secret'',
      bucket = ''pics'', publicUrl = ''https://cdn.example.com/'',
      keyPrefix = None, maxSizeBytes = None, cacheControl = None\<rparr>"

definition example_client :: Image2UrlClient where
  "example_client =
     \<lparr>this_client =
        \<lparr>region = ''auto'', endpoint = ''https://acct.r2.cloudflarestorage.com'',
         credentials_accessKeyId = ''AKID'', credentials_secretAccessKey = ''secret''\<rparr>,
      this_bucket = ''pics'',
      this_publicUrl = ''https://cdn.example.com'',
      this_prefix = ''images'',
      this_maxSize = 2097152,
      this_cacheControl = ''public, max-age=31536000''\<rparr>"

definition example_env :: environment where
  "example_env =
     \<lparr>Date_now = 1700000000000,
      randomUUID = ''123e4567-e89b-42d3-a456-426614174000'',
      toISOString = ''2023-11-14T22:13:20.000Z'',
      fs = [''/tmp/cat.png'' \<mapsto> RegularFile [137, 80, 78, 71],
            ''/tmp/empty.png'' \<mapsto> RegularFile [],
            ''/tmp'' \<mapsto> OtherEntry],
      send = (\<lambda>c cmd. PutObjectOutput (Some ''abc123''))\<rparr>"

definition no_options :: UploadOptions where
  "no_options = \<lparr>key = None, originalName = None, contentType = None, metadata = None\<rparr>"

definition example_metadata :: "string \<rightharpoonup> string" where
  "example_metadata = [''author'' \<mapsto> ''me'', ''upload-time'' \<mapsto> ''yesterday'']"

section \<open>Properties\<close>

subsection \<open>Evaluation rules\<close>

lemma string_of_nat_digit: "n < 10 \<Longrightarrow> string_of_nat n = [digit_char n]"
  by (simp add: string_of_nat.simps)

lemma string_of_nat_step:
  "10 \<le> n \<Longrightarrow> string_of_nat n = string_of_nat (n div 10) @ [digit_char (n mod 10)]"
  by (subst string_of_nat.simps) simp

lemmas string_defs = startsWith_def toLowerCase_def lower_char_def upper_letters_def
  lower_letters_def trim_def is_space_def
  is_slash_def dropLeadingSlashes_def dropTrailingSlashes_def basename_def extname_def
  string_of_int_def string_of_nat_digit string_of_nat_step digit_char_def remove_first_dot_def

lemmas table_defs = MIME_BY_EXT_def EXT_BY_MIME_def MIME_BY_EXT_get_def EXT_BY_MIME_get_def
  inherited_property_def Object_prototype_methods_def

lemmas module_defs = uploadBuffer_def toBuffer_def ensureImageContentType_def
  resolvedContentType_def guessContentType_def guessExtension_def buildKey_def
  generatedFilename_def normalizeKey_def buildMetadata_def buildPublicUrl_def
  trimTrailingSlash_def trimSlashes_def Let_def

lemmas wrapper_defs = uploadFile_def uploadFile_options_def uploadBase64_def
  uploadBase64_options_def

lemmas resolve_defs = resolvedContentType_def guessContentType_def uploadFile_options_def
  uploadBase64_options_def toBuffer_def Let_def

lemmas example_defs = example_client_def example_env_def no_options_def

subsection \<open>Strings, paths and tables\<close>

lemma extname_examples:
  "extname ''photo.PNG'' = ''.PNG''"
  "extname ''archive.tar.gz'' = ''.gz''"
  "extname ''.bashrc'' = []"
  "extname ''notes.'' = ''.''"
  "extname ''dir.d/file'' = []"
  "extname ''dir/pic.gif/'' = ''.gif''"
  "extname ''..'' = []"
  by (simp_all add: extname_def basename_def is_slash_def)

lemma toLowerCase_examples:
  "toLowerCase ''Holiday.JPEG'' = ''holiday.jpeg''"
  "toLowerCase [CHR 0xC9, CHR 0xD7, CHR 0xDE, CHR 0xDF] = [CHR 0xE9, CHR 0xD7, CHR 0xFE, CHR 0xDF]"
  by (simp_all add: toLowerCase_def lower_char_def upper_letters_def lower_letters_def)

lemma startsWith_empty: "\<not> startsWith [] ''image/''"
  by (simp add: startsWith_def)

lemma dropTrailingSlashes_idem:
  "dropTrailingSlashes (dropTrailingSlashes s) = dropTrailingSlashes s"
  by (simp add: dropTrailingSlashes_def)

lemma dropWhile_no_head: "take 1 (dropWhile P xs) \<noteq> [c] \<or> \<not> P c"
  by (induction xs) auto

lemma no_leading_slash: "\<not> startsWith (dropLeadingSlashes k) ''/''"
  using dropWhile_no_head[of is_slash k "CHR ''/''"]
  by (simp add: startsWith_def dropLeadingSlashes_def is_slash_def)

lemma no_trailing_slash: "\<not> startsWith (rev (dropTrailingSlashes b)) ''/''"
  using dropWhile_no_head[of is_slash "rev b" "CHR ''/''"]
  by (simp add: startsWith_def dropTrailingSlashes_def is_slash_def)

lemma trim_Nil: "trim [] = []"
  by (simp add: trim_def)

lemma key_given_iff: "(k \<noteq> [] \<and> 0 < length (trim k)) \<longleftrightarrow> trim k \<noteq> []"
  using trim_Nil by auto








lemma MIME_BY_EXT_image: "MIME_BY_EXT_get ext = Some m \<Longrightarrow> startsWith m ''image/''"
  by (auto simp: MIME_BY_EXT_get_def MIME_BY_EXT_def startsWith_def split: if_splits)

subsection \<open>Content types and metadata\<close>

lemma ensureImageContentType_Inr:
  "ensureImageContentType ct = Inr c \<longleftrightarrow> c = ct \<and> startsWith ct ''image/''"
  unfolding ensureImageContentType_def using startsWith_empty by auto

lemma ensureImageContentType_rejects:
  "\<not> startsWith ct ''image/'' \<Longrightarrow> \<exists>e. ensureImageContentType ct = Inl e \<and> validation_error e"
  unfolding ensureImageContentType_def by auto

lemma guessContentType_image: "guessContentType oname = Some m \<Longrightarrow> startsWith m ''image/''"
  by (auto simp: guessContentType_def Let_def MIME_BY_EXT_image split: option.splits if_splits)

lemma guessContentType_None:
  "guessContentType oname = None \<longleftrightarrow>
     oname = None \<or> (\<exists>n. oname = Some n \<and> map_of MIME_BY_EXT (toLowerCase (extname n)) = None)"
proof -
  have "map_of MIME_BY_EXT (toLowerCase (extname [])) = None"
    by (simp add: MIME_BY_EXT_def toLowerCase_def extname_def basename_def)
  then show ?thesis
    by (auto simp: guessContentType_def MIME_BY_EXT_get_def Let_def split: option.splits)
qed

lemma resolvedContentType_empty:
  "resolvedContentType options = [] \<longleftrightarrow> contentType options = Some []"
proof -
  have "\<not> startsWith [] ''image/''" by (rule startsWith_empty)
  then have "guessContentType (originalName options) \<noteq> Some []"
    using guessContentType_image[of "originalName options" "[]"] by blast
  then show ?thesis
    by (auto simp: resolvedContentType_def split: option.splits)
qed

lemma buildMetadata_lookup:
  "buildMetadata env md oname k =
     (if k = ''upload-time'' then Some (toISOString env)
      else if k = ''original-name'' \<and> oname \<noteq> None \<and> oname \<noteq> Some [] then oname
      else case md of None \<Rightarrow> None | Some m \<Rightarrow> m k)"
  by (auto simp: buildMetadata_def Let_def split: option.splits)

subsection \<open>The constructor\<close>

lemma new_client_fields:
  assumes "new_Image2UrlClient config = Inr this"
  shows "this_bucket this = bucket config"
    and "this_publicUrl this = dropTrailingSlashes (publicUrl config)"
    and "this_prefix this
          = trimSlashes (case keyPrefix config of Some p \<Rightarrow> p | None \<Rightarrow> ''images'')"
    and "this_maxSize this
          = (case maxSizeBytes config of Some n \<Rightarrow> n | None \<Rightarrow> DEFAULT_MAX_SIZE)"
    and "this_cacheControl this
          = (case cacheControl config of Some c \<Rightarrow> c | None \<Rightarrow> DEFAULT_CACHE_CONTROL)"
  using assms
  by (auto simp: new_Image2UrlClient_def requireValue_def trimTrailingSlash_def
      split: if_splits)

lemma example_client_built: "new_Image2UrlClient example_config = Inr example_client"
  by (simp add: new_Image2UrlClient_def example_config_def example_client_def requireValue_def
      trimTrailingSlash_def trimSlashes_def dropTrailingSlashes_def dropLeadingSlashes_def
      is_slash_def DEFAULT_MAX_SIZE_def DEFAULT_CACHE_CONTROL_def)

subsection \<open>The cases of \<open>uploadBuffer\<close>\<close>

lemma uploadBuffer_empty:
  "toBuffer d = [] \<Longrightarrow> uploadBuffer this env d options = (Inl EmptyFile, [])"
  by (simp add: uploadBuffer_def)

lemma uploadBuffer_too_large:
  "toBuffer d \<noteq> [] \<Longrightarrow> this_maxSize this < int (length (toBuffer d)) \<Longrightarrow>
   uploadBuffer this env d options = (Inl (FileTooLarge (this_maxSize this)), [])"
  by (simp add: uploadBuffer_def)

lemma uploadBuffer_rejected_type:
  "toBuffer d \<noteq> [] \<Longrightarrow> int (length (toBuffer d)) \<le> this_maxSize this \<Longrightarrow>
   ensureImageContentType (resolvedContentType options) = Inl e \<Longrightarrow>
   uploadBuffer this env d options = (Inl e, [])"
  by (simp add: uploadBuffer_def)

lemma uploadBuffer_sends:
  assumes "toBuffer d \<noteq> []" and "int (length (toBuffer d)) \<le> this_maxSize this"
    and "startsWith (resolvedContentType options) ''image/''"
  shows "\<exists>cmd. snd (uploadBuffer this env d options) = [cmd]
      \<and> Bucket cmd = this_bucket this
      \<and> Key cmd = buildKey this env (key options) (originalName options) (resolvedContentType options)
      \<and> Body cmd = toBuffer d
      \<and> ContentType cmd = resolvedContentType options
      \<and> ContentLength cmd = length (toBuffer d)
      \<and> CacheControl cmd = this_cacheControl this
      \<and> Metadata cmd = buildMetadata env (metadata options) (originalName options)
      \<and> fst (uploadBuffer this env d options) =
          (case send env (this_client this) cmd of
             Rejected reason \<Rightarrow> Inl (SendFailed reason)
           | PutObjectOutput tag \<Rightarrow>
               Inr \<lparr>url = buildPublicUrl (this_publicUrl this) (Key cmd),
                    result_key = Key cmd,
                    result_bucket = this_bucket this,
                    result_size = length (toBuffer d),
                    result_type = resolvedContentType options,
                    etag = tag\<rparr>)"
proof -
  have ok: "ensureImageContentType (resolvedContentType options) = Inr (resolvedContentType options)"
    using assms(3) by (simp add: ensureImageContentType_Inr)
  show ?thesis
    using assms(1,2) ok
    by (cases "send env (this_client this)
                 \<lparr>Bucket = this_bucket this,
                  Key = buildKey this env (key options) (originalName options) (resolvedContentType options),
                  Body = toBuffer d,
                  ContentType = resolvedContentType options,
                  ContentLength = length (toBuffer d),
                  CacheControl = this_cacheControl this,
                  Metadata = buildMetadata env (metadata options) (originalName options)\<rparr>")
       (simp_all add: uploadBuffer_def Let_def)
qed

lemma uploadBuffer_sent_iff:
  "snd (uploadBuffer this env d options) \<noteq> [] \<longleftrightarrow>
     toBuffer d \<noteq> [] \<and> int (length (toBuffer d)) \<le> this_maxSize this
     \<and> startsWith (resolvedContentType options) ''image/''"
proof (cases "toBuffer d \<noteq> [] \<and> int (length (toBuffer d)) \<le> this_maxSize this
     \<and> startsWith (resolvedContentType options) ''image/''")
  case True
  then show ?thesis using uploadBuffer_sends[of d this options env] by auto
next
  case False
  then consider "toBuffer d = []"
    | "toBuffer d \<noteq> []" "this_maxSize this < int (length (toBuffer d))"
    | "toBuffer d \<noteq> []" "int (length (toBuffer d)) \<le> this_maxSize this"
      "\<not> startsWith (resolvedContentType options) ''image/''"
    by fastforce
  then show ?thesis
  proof cases
    case 1
    then show ?thesis by (simp add: uploadBuffer_empty)
  next
    case 2
    then show ?thesis by (simp add: uploadBuffer_too_large)
  next
    case 3
    then obtain e where "ensureImageContentType (resolvedContentType options) = Inl e"
      using ensureImageContentType_rejects by blast
    with 3 show ?thesis by (simp add: uploadBuffer_rejected_type)
  qed
qed

lemma uploadBuffer_error_cases:
  assumes "fst (uploadBuffer this env d options) = Inl e"
  shows "(snd (uploadBuffer this env d options) = [] \<and> validation_error e)
       \<or> (\<exists>cmd reason. snd (uploadBuffer this env d options) = [cmd] \<and> e = SendFailed reason)"
proof (cases "snd (uploadBuffer this env d options) = []")
  case True
  have "validation_error e"
  proof (cases "toBuffer d = []")
    case True
    then show ?thesis using assms by (auto simp: uploadBuffer_empty)
  next
    case ne: False
    show ?thesis
    proof (cases "this_maxSize this < int (length (toBuffer d))")
      case True
      then show ?thesis using assms ne by (auto simp: uploadBuffer_too_large)
    next
      case False
      then have le: "int (length (toBuffer d)) \<le> this_maxSize this" by simp
      have "\<not> startsWith (resolvedContentType options) ''image/''"
        using True uploadBuffer_sent_iff[of this env d options] ne le by blast
      then obtain e' where e': "ensureImageContentType (resolvedContentType options) = Inl e'"
        "validation_error e'"
        using ensureImageContentType_rejects by blast
      then show ?thesis using assms ne le by (auto simp: uploadBuffer_rejected_type)
    qed
  qed
  with True show ?thesis by simp
next
  case False
  then have h: "toBuffer d \<noteq> []" "int (length (toBuffer d)) \<le> this_maxSize this"
    "startsWith (resolvedContentType options) ''image/''"
    using uploadBuffer_sent_iff[of this env d options] by auto
  from uploadBuffer_sends[OF h, of env] obtain cmd where
    sent: "snd (uploadBuffer this env d options) = [cmd]" and
    res: "fst (uploadBuffer this env d options) =
          (case send env (this_client this) cmd of
             Rejected reason \<Rightarrow> Inl (SendFailed reason)
           | PutObjectOutput tag \<Rightarrow>
               Inr \<lparr>url = buildPublicUrl (this_publicUrl this) (Key cmd),
                    result_key = Key cmd,
                    result_bucket = this_bucket this,
                    result_size = length (toBuffer d),
                    result_type = resolvedContentType options,
                    etag = tag\<rparr>)"
    by blast
  show ?thesis
  proof (cases "send env (this_client this) cmd")
    case (Rejected reason)
    with res assms have "e = SendFailed reason" by simp
    with sent show ?thesis by blast
  next
    case (PutObjectOutput tag)
    with res assms show ?thesis by simp
  qed
qed

lemma uploadBuffer_success_sent:
  assumes "fst (uploadBuffer this env d options) = Inr r"
  shows "toBuffer d \<noteq> [] \<and> int (length (toBuffer d)) \<le> this_maxSize this
     \<and> startsWith (resolvedContentType options) ''image/''"
proof -
  have "snd (uploadBuffer this env d options) \<noteq> []"
  proof
    assume empty: "snd (uploadBuffer this env d options) = []"
    then have "\<not> (toBuffer d \<noteq> [] \<and> int (length (toBuffer d)) \<le> this_maxSize this
       \<and> startsWith (resolvedContentType options) ''image/'')"
      using uploadBuffer_sent_iff[of this env d options] by simp
    then consider "toBuffer d = []"
      | "toBuffer d \<noteq> []" "this_maxSize this < int (length (toBuffer d))"
      | "toBuffer d \<noteq> []" "int (length (toBuffer d)) \<le> this_maxSize this"
        "\<not> startsWith (resolvedContentType options) ''image/''"
      by fastforce
    then show False
    proof cases
      case 1
      then show False using assms by (simp add: uploadBuffer_empty)
    next
      case 2
      then show False using assms by (simp add: uploadBuffer_too_large)
    next
      case 3
      then obtain e where "ensureImageContentType (resolvedContentType options) = Inl e"
        using ensureImageContentType_rejects by blast
      with 3 show False using assms by (simp add: uploadBuffer_rejected_type)
    qed
  qed
  then show ?thesis using uploadBuffer_sent_iff[of this env d options] by simp
qed

lemma uploadBuffer_Inl_cases:
  assumes "fst (uploadBuffer this env d options) = Inl e"
  shows "(toBuffer d = [] \<and> e = EmptyFile)
       \<or> (toBuffer d \<noteq> [] \<and> this_maxSize this < int (length (toBuffer d))
           \<and> e = FileTooLarge (this_maxSize this))
       \<or> (toBuffer d \<noteq> [] \<and> int (length (toBuffer d)) \<le> this_maxSize this
           \<and> ensureImageContentType (resolvedContentType options) = Inl e)
       \<or> (toBuffer d \<noteq> [] \<and> int (length (toBuffer d)) \<le> this_maxSize this
           \<and> startsWith (resolvedContentType options) ''image/''
           \<and> (\<exists>reason. e = SendFailed reason))"
proof (cases "toBuffer d = []")
  case True
  then show ?thesis using assms by (auto simp: uploadBuffer_empty)
next
  case ne: False
  show ?thesis
  proof (cases "this_maxSize this < int (length (toBuffer d))")
    case True
    then show ?thesis using assms ne by (auto simp: uploadBuffer_too_large)
  next
    case False
    then have le: "int (length (toBuffer d)) \<le> this_maxSize this" by simp
    show ?thesis
    proof (cases "ensureImageContentType (resolvedContentType options)")
      case (Inl e')
      then show ?thesis using assms ne le by (auto simp: uploadBuffer_rejected_type)
    next
      case (Inr c)
      then have img: "startsWith (resolvedContentType options) ''image/''"
        by (simp add: ensureImageContentType_Inr)
      from uploadBuffer_sends[OF ne le img, of env] obtain cmd where
        res: "fst (uploadBuffer this env d options) =
          (case send env (this_client this) cmd of
             Rejected reason \<Rightarrow> Inl (SendFailed reason)
           | PutObjectOutput tag \<Rightarrow>
               Inr \<lparr>url = buildPublicUrl (this_publicUrl this) (Key cmd),
                    result_key = Key cmd,
                    result_bucket = this_bucket this,
                    result_size = length (toBuffer d),
                    result_type = resolvedContentType options,
                    etag = tag\<rparr>)"
        by blast
      show ?thesis
      proof (cases "send env (this_client this) cmd")
        case (Rejected reason)
        with res assms have "e = SendFailed reason" by simp
        with ne le img show ?thesis by blast
      next
        case (PutObjectOutput tag)
        with res assms show ?thesis by simp
      qed
    qed
  qed
qed

lemma uploadBuffer_not_image:
  assumes "\<not> startsWith (resolvedContentType options) ''image/''"
  shows "(\<exists>e. fst (uploadBuffer this env d options) = Inl e \<and> validation_error e)
       \<and> snd (uploadBuffer this env d options) = []"
proof -
  have unsent: "snd (uploadBuffer this env d options) = []"
    using assms uploadBuffer_sent_iff[of this env d options] by blast
  obtain e where e: "fst (uploadBuffer this env d options) = Inl e"
    using assms uploadBuffer_success_sent[of this env d options]
    by (cases "fst (uploadBuffer this env d options)") auto
  with unsent uploadBuffer_error_cases[OF e] show ?thesis by auto
qed

lemma uploadBuffer_image:
  assumes "startsWith (resolvedContentType options) ''image/''"
    and "toBuffer d \<noteq> []" and "int (length (toBuffer d)) \<le> this_maxSize this"
  shows "map ContentType (snd (uploadBuffer this env d options)) = [resolvedContentType options]"
  using uploadBuffer_sends[OF assms(2,3,1), of env] by auto

lemma uploadBuffer_sent_command:
  assumes "snd (uploadBuffer this env d options) = [cmd]"
  shows "toBuffer d \<noteq> []" and "int (length (toBuffer d)) \<le> this_maxSize this"
    and "startsWith (resolvedContentType options) ''image/''"
    and "Bucket cmd = this_bucket this"
    and "Key cmd = buildKey this env (key options) (originalName options)
                     (resolvedContentType options)"
    and "Body cmd = toBuffer d"
    and "ContentType cmd = resolvedContentType options"
    and "ContentLength cmd = length (toBuffer d)"
    and "CacheControl cmd = this_cacheControl this"
    and "Metadata cmd = buildMetadata env (metadata options) (originalName options)"
    and "fst (uploadBuffer this env d options) =
          (case send env (this_client this) cmd of
             Rejected reason \<Rightarrow> Inl (SendFailed reason)
           | PutObjectOutput tag \<Rightarrow>
               Inr \<lparr>url = buildPublicUrl (this_publicUrl this) (Key cmd),
                    result_key = Key cmd,
                    result_bucket = this_bucket this,
                    result_size = length (toBuffer d),
                    result_type = resolvedContentType options,
                    etag = tag\<rparr>)"
proof -
  have h: "toBuffer d \<noteq> []" "int (length (toBuffer d)) \<le> this_maxSize this"
    "startsWith (resolvedContentType options) ''image/''"
    using assms uploadBuffer_sent_iff[of this env d options] by auto
  from uploadBuffer_sends[OF h, of env] assms
  show "toBuffer d \<noteq> []" and "int (length (toBuffer d)) \<le> this_maxSize this"
    and "startsWith (resolvedContentType options) ''image/''"
    and "Bucket cmd = this_bucket this"
    and "Key cmd = buildKey this env (key options) (originalName options)
                     (resolvedContentType options)"
    and "Body cmd = toBuffer d"
    and "ContentType cmd = resolvedContentType options"
    and "ContentLength cmd = length (toBuffer d)"
    and "CacheControl cmd = this_cacheControl this"
    and "Metadata cmd = buildMetadata env (metadata options) (originalName options)"
    and "fst (uploadBuffer this env d options) =
          (case send env (this_client this) cmd of
             Rejected reason \<Rightarrow> Inl (SendFailed reason)
           | PutObjectOutput tag \<Rightarrow>
               Inr \<lparr>url = buildPublicUrl (this_publicUrl this) (Key cmd),
                    result_key = Key cmd,
                    result_bucket = this_bucket this,
                    result_size = length (toBuffer d),
                    result_type = resolvedContentType options,
                    etag = tag\<rparr>)"
    using h by auto
qed

lemma uploadBuffer_success:
  assumes "fst (uploadBuffer this env d options) = Inr r"
  shows "\<exists>cmd. snd (uploadBuffer this env d options) = [cmd]
      \<and> send env (this_client this) cmd = PutObjectOutput (etag r)
      \<and> url r = buildPublicUrl (this_publicUrl this) (Key cmd)
      \<and> result_key r = Key cmd
      \<and> result_bucket r = this_bucket this
      \<and> result_size r = length (toBuffer d)
      \<and> result_type r = resolvedContentType options"
proof -
  from uploadBuffer_success_sent[OF assms] uploadBuffer_sends[of d this options env]
  obtain cmd where sent: "snd (uploadBuffer this env d options) = [cmd]" by blast
  show ?thesis
  proof (cases "send env (this_client this) cmd")
    case (Rejected reason)
    with uploadBuffer_sent_command(11)[OF sent] assms show ?thesis by simp
  next
    case (PutObjectOutput tag)
    with uploadBuffer_sent_command(11)[OF sent] assms have
      "r = \<lparr>url = buildPublicUrl (this_publicUrl this) (Key cmd),
            result_key = Key cmd,
            result_bucket = this_bucket this,
            result_size = length (toBuffer d),
            result_type = resolvedContentType options,
            etag = tag\<rparr>"
      by simp
    with sent PutObjectOutput show ?thesis by simp
  qed
qed

subsection \<open>\<open>uploadFile\<close> and \<open>uploadBase64\<close>\<close>

lemma uploadFile_regular:
  "fs env filePath = Some (RegularFile b) \<Longrightarrow>
   uploadFile this env filePath options =
     uploadBuffer this env (Buffer b) (uploadFile_options filePath options)"
  by (simp add: uploadFile_def)

lemma uploadFile_no_file:
  "(\<forall>b. fs env filePath \<noteq> Some (RegularFile b)) \<Longrightarrow>
   (\<exists>e. fst (uploadFile this env filePath options) = Inl e)
   \<and> snd (uploadFile this env filePath options) = []"
  by (auto simp: uploadFile_def split: option.splits fs_entry.splits)

lemma uploadFile_error_cases:
  assumes "fst (uploadFile this env filePath options) = Inl e" and "validation_error e"
  shows "snd (uploadFile this env filePath options) = []"
proof (cases "fs env filePath")
  case None
  then show ?thesis by (simp add: uploadFile_def)
next
  case (Some entry)
  show ?thesis
  proof (cases entry)
    case (RegularFile buffer)
    with Some assms uploadBuffer_error_cases[of this env "Buffer buffer" "uploadFile_options filePath options" e]
    show ?thesis by (auto simp: uploadFile_def)
  next
    case OtherEntry
    with Some show ?thesis by (simp add: uploadFile_def)
  qed
qed

lemma uploadBase64_error_cases:
  assumes "fst (uploadBase64 this env base64 options) = Inl e" and "validation_error e"
  shows "snd (uploadBase64 this env base64 options) = []"
  using assms
    uploadBuffer_error_cases[of this env "Buffer (decoded_buffer (decodeBase64 base64))"
      "uploadBase64_options (decodeBase64 base64) options" e]
  by (auto simp: uploadBase64_def Let_def)

subsection \<open>The lenient decoder\<close>

lemma map_filter_all_None: "list_all (\<lambda>c. f c = None) xs \<Longrightarrow> List.map_filter f xs = []"
  by (induction xs) (simp_all add: List.map_filter_simps)

lemma list_all_takeWhile: "list_all P xs \<Longrightarrow> list_all P (takeWhile Q xs)"
  by (induction xs) simp_all

lemma unbase64_d: "unbase64 (CHR ''d'') = Some 29"
  by code_simp

lemma no_alphabet_no_data_uri:
  assumes "list_all (\<lambda>c. unbase64 c = None) v"
  shows "dataUriMatch v = None"
proof (cases "startsWith v ''data:''")
  case True
  then have "v \<noteq> [] \<and> hd v = CHR ''d''"
    by (cases v) (auto simp: startsWith_def)
  with assms have "unbase64 (CHR ''d'') = None"
    by (cases v) auto
  with unbase64_d show ?thesis by simp
next
  case False
  then show ?thesis by (simp add: dataUriMatch_def)
qed

lemma no_alphabet_empty_buffer:
  assumes "list_all (\<lambda>c. unbase64 c = None) (trim s)"
  shows "decoded_buffer (decodeBase64 s) = []"
  using no_alphabet_no_data_uri[OF assms]
    map_filter_all_None[OF list_all_takeWhile[OF assms, of "\<lambda>c. c \<noteq> CHR ''=''"]]
  by (simp add: decodeBase64_def Buffer_from_base64_def)

subsection \<open>Evaluations at the concrete inputs\<close>

lemma decode_padding_only:
  "decodeBase64 ''data:image/png;base64,='' =
     \<lparr>decoded_buffer = [], decoded_contentType = Some ''image/png'',
      decoded_originalName = Some ''upload.png''\<rparr>"
  by code_simp

lemma decode_text_plain:
  "decodeBase64 ''data:text/plain;base64,QUJD'' =
     \<lparr>decoded_buffer = [65, 66, 67], decoded_contentType = Some ''text/plain'',
      decoded_originalName = Some ''upload.jpg''\<rparr>"
  by code_simp

lemma decode_gif:
  "decodeBase64 ''data:image/gif;base64,QUJD'' =
     \<lparr>decoded_buffer = [65, 66, 67], decoded_contentType = Some ''image/gif'',
      decoded_originalName = Some ''upload.gif''\<rparr>"
  by code_simp

lemma decode_dollar:
  "decodeBase64 ''a$b'' =
     \<lparr>decoded_buffer = [105], decoded_contentType = None, decoded_originalName = None\<rparr>"
  by code_simp

lemma decode_bangs:
  "decodeBase64 ''!!!!'' =
     \<lparr>decoded_buffer = [], decoded_contentType = None, decoded_originalName = None\<rparr>"
  by code_simp

lemma dollar_not_base64: "\<not> only_base64_characters ''a$b''"
  by code_simp

lemma dollar_not_data_uri: "dataUriMatch (trim ''a$b'') = None"
  by code_simp

lemma bangs_no_alphabet: "list_all (\<lambda>c. unbase64 c = None) (trim ''!!!!'')"
  by code_simp

lemma example_not_image:
  "fst (uploadBuffer example_client example_env (Buffer [1])
          (no_options\<lparr>contentType := Some ''text/plain''\<rparr>)) = Inl (NotAnImage ''text/plain'')"
  by (simp add: module_defs string_defs example_defs)

lemma example_file_not_image:
  "fst (uploadFile example_client example_env ''/tmp/cat.png''
          (no_options\<lparr>contentType := Some ''text/plain''\<rparr>)) = Inl (NotAnImage ''text/plain'')"
  by (simp add: wrapper_defs module_defs string_defs example_defs)

lemma example_base64_not_image:
  "fst (uploadBase64 example_client example_env ''data:text/plain;base64,QUJD'' no_options)
     = Inl (NotAnImage ''text/plain'')"
  by (simp add: wrapper_defs decode_text_plain module_defs string_defs example_defs)

lemma example_upload_result:
  "fst (uploadBuffer example_client example_env (Buffer [1, 2, 3])
          (no_options\<lparr>key := Some (CHR 0x5C # ''cat.png'')\<rparr>))
     = Inr \<lparr>url = ''https://cdn.example.com/cat.png'',
            result_key = ''/cat.png'',
            result_bucket = ''pics'',
            result_size = 3,
            result_type = ''image/jpeg'',
            etag = Some ''abc123''\<rparr>"
  by (simp add: module_defs string_defs table_defs example_defs)





lemma example_supplied_key:
  "snd (uploadBuffer example_client example_env (Buffer [1, 2, 3])
          (no_options\<lparr>key := Some (''//photos'' @ [CHR 0x5C] @ ''cat.png'')\<rparr>))
     = [\<lparr>Bucket = ''pics'',
         Key = ''photos/cat.png'',
         Body = [1, 2, 3],
         ContentType = ''image/jpeg'',
         ContentLength = 3,
         CacheControl = ''public, max-age=31536000'',
         Metadata = [''upload-time'' \<mapsto> ''2023-11-14T22:13:20.000Z'']\<rparr>]"
  by (simp add: module_defs string_defs table_defs example_defs)

lemma example_key_present: "key (no_options\<lparr>key := Some (''//photos'' @ [CHR 0x5C] @ ''cat.png'')\<rparr>)
     = Some (''//photos'' @ [CHR 0x5C] @ ''cat.png'')"
  by (simp add: no_options_def)

lemma example_key_not_blank: "trim (''//photos'' @ [CHR 0x5C] @ ''cat.png'') \<noteq> []"
  by (simp add: string_defs)

lemma example_key_normalized: "normalizeKey (''//photos'' @ [CHR 0x5C] @ ''cat.png'') = ''photos/cat.png''"
  by (simp add: normalizeKey_def string_defs)

lemma example_overwritten_metadata:
  "snd (uploadBuffer example_client example_env (Buffer [1, 2, 3])
          (no_options\<lparr>originalName := Some ''cat.png'', metadata := Some example_metadata\<rparr>))
     = [\<lparr>Bucket = ''pics'',
         Key = ''images/1700000000000-123e4567-e89b-42d3-a456-426614174000.png'',
         Body = [1, 2, 3],
         ContentType = ''image/png'',
         ContentLength = 3,
         CacheControl = ''public, max-age=31536000'',
         Metadata = [''author'' \<mapsto> ''me'', ''original-name'' \<mapsto> ''cat.png'',
                     ''upload-time'' \<mapsto> ''2023-11-14T22:13:20.000Z'']\<rparr>]"
  by (simp add: module_defs string_defs table_defs example_defs example_metadata_def)

lemma example_metadata_success:
  "fst (uploadBuffer example_client example_env (Buffer [1, 2, 3])
          (no_options\<lparr>originalName := Some ''cat.png'', metadata := Some example_metadata\<rparr>))
     = Inr \<lparr>url = ''https://cdn.example.com/images/1700000000000-123e4567-e89b-42d3-a456-426614174000.png'',
            result_key = ''images/1700000000000-123e4567-e89b-42d3-a456-426614174000.png'',
            result_bucket = ''pics'',
            result_size = 3,
            result_type = ''image/png'',
            etag = Some ''abc123''\<rparr>"
  by (simp add: module_defs string_defs table_defs example_defs)

lemma example_dollar_upload:
  "uploadBuffer example_client example_env (Buffer [105]) no_options
     = (Inr \<lparr>url = ''https://cdn.example.com/images/1700000000000-123e4567-e89b-42d3-a456-426614174000.jpg'',
             result_key = ''images/1700000000000-123e4567-e89b-42d3-a456-426614174000.jpg'',
             result_bucket = ''pics'',
             result_size = 1,
             result_type = ''image/jpeg'',
             etag = Some ''abc123''\<rparr>,
        [\<lparr>Bucket = ''pics'',
          Key = ''images/1700000000000-123e4567-e89b-42d3-a456-426614174000.jpg'',
          Body = [105],
          ContentType = ''image/jpeg'',
          ContentLength = 1,
          CacheControl = ''public, max-age=31536000'',
          Metadata = [''upload-time'' \<mapsto> ''2023-11-14T22:13:20.000Z'']\<rparr>])"
  by (simp add: module_defs string_defs table_defs example_defs)

lemma example_dollar_options:
  "uploadBase64_options
     \<lparr>decoded_buffer = [105], decoded_contentType = None, decoded_originalName = None\<rparr>
     no_options = no_options"
  by (simp add: uploadBase64_options_def no_options_def)

subsection \<open>Empty payloads\<close>

text \<open>
  Claim C3.  A payload of zero bytes is rejected with the empty-file error and nothing is
  sent to the store, whether the bytes come straight into \<open>uploadBuffer\<close>, from a file
  read by \<open>uploadFile\<close>, or from the text decoded by \<open>uploadBase64\<close>.
\<close>

theorem empty_payload_rejected:
  "(toBuffer d = [] \<longrightarrow> uploadBuffer this env d options = (Inl EmptyFile, []))
 \<and> (fs env filePath = Some (RegularFile []) \<longrightarrow>
       uploadFile this env filePath options = (Inl EmptyFile, []))
 \<and> (decoded_buffer (decodeBase64 base64) = [] \<longrightarrow>
       uploadBase64 this env base64 options = (Inl EmptyFile, []))"
  by (simp add: uploadBuffer_empty uploadFile_def uploadBase64_def toBuffer_def Let_def)

theorem empty_payload_rejected_witness:
  "uploadBuffer example_client example_env (Uint8Array [1, 2, 3] 1 0) no_options
     = (Inl EmptyFile, [])
 \<and> uploadFile example_client example_env ''/tmp/empty.png'' no_options = (Inl EmptyFile, [])
 \<and> uploadBase64 example_client example_env ''data:image/png;base64,='' no_options
     = (Inl EmptyFile, [])"
  using empty_payload_rejected[where d = "Uint8Array [1, 2, 3] 1 0" and env = example_env
      and filePath = "''/tmp/empty.png''" and ?base64.0 = "''data:image/png;base64,=''"
      and this = example_client and options = no_options]
  by (simp add: toBuffer_def example_env_def decode_padding_only)

subsection \<open>Validation comes before the remote call\<close>

text \<open>
  Claim C10.  When an upload fails with a validation error, no PutObject command has
  been sent: the list of commands the operation returns is empty.  This holds for
  \<open>uploadBuffer\<close> and for the two operations that hand over to it.
\<close>

theorem validation_failure_sends_nothing:
  "(fst (uploadBuffer this env d options) = Inl e \<and> validation_error e \<longrightarrow>
      snd (uploadBuffer this env d options) = [])
 \<and> (fst (uploadFile this env filePath options) = Inl e \<and> validation_error e \<longrightarrow>
      snd (uploadFile this env filePath options) = [])
 \<and> (fst (uploadBase64 this env base64 options) = Inl e \<and> validation_error e \<longrightarrow>
      snd (uploadBase64 this env base64 options) = [])"
  using uploadBuffer_error_cases[of this env d options e]
    uploadFile_error_cases[of this env filePath options e]
    uploadBase64_error_cases[of this env base64 options e]
  by auto

theorem validation_failure_sends_nothing_witness:
  "fst (uploadBuffer example_client example_env (Buffer [1])
          (no_options\<lparr>contentType := Some ''text/plain''\<rparr>)) = Inl (NotAnImage ''text/plain'')
 \<and> validation_error (NotAnImage ''text/plain'')
 \<and> snd (uploadBuffer example_client example_env (Buffer [1])
          (no_options\<lparr>contentType := Some ''text/plain''\<rparr>)) = []
 \<and> snd (uploadFile example_client example_env ''/tmp/cat.png''
          (no_options\<lparr>contentType := Some ''text/plain''\<rparr>)) = []
 \<and> snd (uploadBase64 example_client example_env ''data:text/plain;base64,QUJD'' no_options)
      = []"
  using validation_failure_sends_nothing[where this = example_client and env = example_env
      and d = "Buffer [1]" and options = "no_options\<lparr>contentType := Some ''text/plain''\<rparr>"
      and e = "NotAnImage ''text/plain''" and filePath = "''/tmp/cat.png''"
      and ?base64.0 = "''data:text/plain;base64,QUJD''"]
    validation_failure_sends_nothing[where this = example_client and env = example_env
      and options = no_options and e = "NotAnImage ''text/plain''"
      and ?base64.0 = "''data:text/plain;base64,QUJD''"]
    example_not_image example_file_not_image example_base64_not_image
  by simp


subsection \<open>Only images are accepted\<close>

text \<open>
  Claim C1.  The content type an upload resolves to is the one the caller supplies, or
  else the one the extension-to-MIME table gives for the original file name (and
  \<open>image/jpeg\<close> when neither is there); this is \<open>resolvedContentType\<close>.  When it does not
  begin with \<open>image/\<close>, the upload fails with a validation error and no command is sent.
  When it does, \<open>ensureImageContentType\<close> returns it unchanged and, for a payload that
  passes the size checks, it is the \<open>ContentType\<close> of the one command sent.  The same
  holds for \<open>uploadFile\<close> and \<open>uploadBase64\<close>, at the options they hand to
  \<open>uploadBuffer\<close>; \<open>uploadFile\<close> may also fail before, on the file system.
\<close>

theorem image_content_type_required:
  "(\<not> startsWith (resolvedContentType options) ''image/'' \<longrightarrow>
      (\<exists>e. fst (uploadBuffer this env d options) = Inl e \<and> validation_error e)
      \<and> snd (uploadBuffer this env d options) = [])
 \<and> (startsWith (resolvedContentType options) ''image/'' \<longrightarrow>
      ensureImageContentType (resolvedContentType options) = Inr (resolvedContentType options)
      \<and> (toBuffer d \<noteq> [] \<and> int (length (toBuffer d)) \<le> this_maxSize this \<longrightarrow>
           map ContentType (snd (uploadBuffer this env d options))
             = [resolvedContentType options]))
 \<and> (\<not> startsWith (resolvedContentType (uploadFile_options filePath options)) ''image/'' \<longrightarrow>
      (\<exists>e. fst (uploadFile this env filePath options) = Inl e)
      \<and> snd (uploadFile this env filePath options) = [])
 \<and> (startsWith (resolvedContentType (uploadFile_options filePath options)) ''image/''
      \<and> fs env filePath = Some (RegularFile b) \<and> b \<noteq> [] \<and> int (length b) \<le> this_maxSize this \<longrightarrow>
      map ContentType (snd (uploadFile this env filePath options))
        = [resolvedContentType (uploadFile_options filePath options)])
 \<and> (\<not> startsWith (resolvedContentType (uploadBase64_options (decodeBase64 base64) options))
          ''image/'' \<longrightarrow>
      (\<exists>e. fst (uploadBase64 this env base64 options) = Inl e \<and> validation_error e)
      \<and> snd (uploadBase64 this env base64 options) = [])
 \<and> (startsWith (resolvedContentType (uploadBase64_options (decodeBase64 base64) options))
        ''image/''
      \<and> decoded_buffer (decodeBase64 base64) \<noteq> []
      \<and> int (length (decoded_buffer (decodeBase64 base64))) \<le> this_maxSize this \<longrightarrow>
      map ContentType (snd (uploadBase64 this env base64 options))
        = [resolvedContentType (uploadBase64_options (decodeBase64 base64) options)])"
proof -
  have buf_no: "\<not> startsWith (resolvedContentType options) ''image/'' \<longrightarrow>
      (\<exists>e. fst (uploadBuffer this env d options) = Inl e \<and> validation_error e)
      \<and> snd (uploadBuffer this env d options) = []"
    using uploadBuffer_not_image[of options this env d] by blast
  have buf_yes: "startsWith (resolvedContentType options) ''image/'' \<longrightarrow>
      ensureImageContentType (resolvedContentType options) = Inr (resolvedContentType options)
      \<and> (toBuffer d \<noteq> [] \<and> int (length (toBuffer d)) \<le> this_maxSize this \<longrightarrow>
           map ContentType (snd (uploadBuffer this env d options))
             = [resolvedContentType options])"
    by (simp add: ensureImageContentType_Inr uploadBuffer_image)
  have file_no: "\<not> startsWith (resolvedContentType (uploadFile_options filePath options)) ''image/'' \<longrightarrow>
      (\<exists>e. fst (uploadFile this env filePath options) = Inl e)
      \<and> snd (uploadFile this env filePath options) = []"
  proof
    assume ni: "\<not> startsWith (resolvedContentType (uploadFile_options filePath options)) ''image/''"
    show "(\<exists>e. fst (uploadFile this env filePath options) = Inl e)
        \<and> snd (uploadFile this env filePath options) = []"
    proof (cases "\<exists>b. fs env filePath = Some (RegularFile b)")
      case True
      then obtain b' where "fs env filePath = Some (RegularFile b')" by blast
      then show ?thesis
        using uploadBuffer_not_image[OF ni, of this env "Buffer b'"]
        by (auto simp: uploadFile_regular)
    next
      case False
      then show ?thesis using uploadFile_no_file[of env filePath this options] by blast
    qed
  qed
  have file_yes: "startsWith (resolvedContentType (uploadFile_options filePath options)) ''image/''
      \<and> fs env filePath = Some (RegularFile b) \<and> b \<noteq> [] \<and> int (length b) \<le> this_maxSize this \<longrightarrow>
      map ContentType (snd (uploadFile this env filePath options))
        = [resolvedContentType (uploadFile_options filePath options)]"
    using uploadBuffer_image[of "uploadFile_options filePath options" "Buffer b" this env]
    by (simp add: uploadFile_regular toBuffer_def)
  have b64_no: "\<not> startsWith (resolvedContentType (uploadBase64_options (decodeBase64 base64) options))
          ''image/'' \<longrightarrow>
      (\<exists>e. fst (uploadBase64 this env base64 options) = Inl e \<and> validation_error e)
      \<and> snd (uploadBase64 this env base64 options) = []"
    using uploadBuffer_not_image[of "uploadBase64_options (decodeBase64 base64) options"
        this env "Buffer (decoded_buffer (decodeBase64 base64))"]
    by (simp add: uploadBase64_def Let_def)
  have b64_yes: "startsWith (resolvedContentType (uploadBase64_options (decodeBase64 base64) options))
        ''image/''
      \<and> decoded_buffer (decodeBase64 base64) \<noteq> []
      \<and> int (length (decoded_buffer (decodeBase64 base64))) \<le> this_maxSize this \<longrightarrow>
      map ContentType (snd (uploadBase64 this env base64 options))
        = [resolvedContentType (uploadBase64_options (decodeBase64 base64) options)]"
    using uploadBuffer_image[of "uploadBase64_options (decodeBase64 base64) options"
        "Buffer (decoded_buffer (decodeBase64 base64))" this env]
    by (simp add: uploadBase64_def Let_def toBuffer_def)
  show ?thesis
    by (intro conjI buf_no buf_yes file_no file_yes b64_no b64_yes)
qed


theorem image_content_type_required_witness:
  "snd (uploadBuffer example_client example_env (Buffer [1])
          (no_options\<lparr>contentType := Some ''text/plain''\<rparr>)) = []
 \<and> map ContentType (snd (uploadBuffer example_client example_env (Buffer [1])
          (no_options\<lparr>originalName := Some ''Cat.PNG''\<rparr>))) = [''image/png'']
 \<and> snd (uploadFile example_client example_env ''/tmp/cat.png''
          (no_options\<lparr>contentType := Some ''text/plain''\<rparr>)) = []
 \<and> map ContentType (snd (uploadFile example_client example_env ''/tmp/cat.png'' no_options))
      = [''image/png'']
 \<and> snd (uploadBase64 example_client example_env ''data:text/plain;base64,QUJD'' no_options) = []
 \<and> map ContentType
       (snd (uploadBase64 example_client example_env ''data:image/gif;base64,QUJD'' no_options))
      = [''image/gif'']"
  using image_content_type_required[where this = example_client and env = example_env
      and d = "Buffer [1]" and options = "no_options\<lparr>contentType := Some ''text/plain''\<rparr>"
      and filePath = "''/tmp/cat.png''" and ?base64.0 = "''data:text/plain;base64,QUJD''"]
    image_content_type_required[where this = example_client and env = example_env
      and d = "Buffer [1]" and options = "no_options\<lparr>originalName := Some ''Cat.PNG''\<rparr>"]
    image_content_type_required[where this = example_client and env = example_env
      and options = no_options and filePath = "''/tmp/cat.png''" and b = "[137, 80, 78, 71]"
      and ?base64.0 = "''data:image/gif;base64,QUJD''"]
    image_content_type_required[where this = example_client and env = example_env
      and options = no_options and ?base64.0 = "''data:text/plain;base64,QUJD''"]
  by (simp add: resolve_defs decode_gif decode_text_plain string_defs table_defs example_defs)

subsection \<open>The size ceiling\<close>

text \<open>
  Claim C2, as stated, at a negative ceiling: the client built with
  \<open>maxSizeBytes = -1\<close> has ceiling \<open>-1\<close>, the empty buffer is longer than that, and
  \<open>uploadBuffer\<close> answers with the empty-file error, not with the size-limit error,
  because the emptiness check comes first.
\<close>

theorem size_ceiling_counterexample:
  "new_Image2UrlClient (example_config\<lparr>maxSizeBytes := Some (- 1)\<rparr>)
     = Inr (example_client\<lparr>this_maxSize := - 1\<rparr>)
 \<and> this_maxSize (example_client\<lparr>this_maxSize := - 1\<rparr>) < int (length (toBuffer (Buffer [])))
 \<and> uploadBuffer (example_client\<lparr>this_maxSize := - 1\<rparr>) example_env (Buffer []) no_options
     = (Inl EmptyFile, [])"
  by (simp add: new_Image2UrlClient_def example_config_def example_client_def requireValue_def
      trimTrailingSlash_def trimSlashes_def dropTrailingSlashes_def dropLeadingSlashes_def
      is_slash_def DEFAULT_CACHE_CONTROL_def uploadBuffer_def toBuffer_def)

text \<open>
  Claim C2, amended.  The ceiling is \<open>maxSizeBytes\<close>, or \<open>2 * 1024 * 1024\<close> when that field
  is absent.  A buffer that is not empty and longer than the ceiling is rejected with the
  size-limit error and nothing is sent.  A buffer that is not empty and at most as long
  as the ceiling passes the size check: the result is neither the size-limit nor the
  empty-file error, and with an image content type the buffer is sent.  An empty buffer
  is rejected as empty, whatever the ceiling.
\<close>

theorem size_ceiling:
  "(toBuffer d \<noteq> [] \<and> this_maxSize this < int (length (toBuffer d)) \<longrightarrow>
      uploadBuffer this env d options = (Inl (FileTooLarge (this_maxSize this)), []))
 \<and> (toBuffer d \<noteq> [] \<and> int (length (toBuffer d)) \<le> this_maxSize this \<longrightarrow>
      fst (uploadBuffer this env d options) \<noteq> Inl (FileTooLarge n)
      \<and> fst (uploadBuffer this env d options) \<noteq> Inl EmptyFile
      \<and> (startsWith (resolvedContentType options) ''image/'' \<longrightarrow>
           map Body (snd (uploadBuffer this env d options)) = [toBuffer d]))
 \<and> (toBuffer d = [] \<longrightarrow> uploadBuffer this env d options = (Inl EmptyFile, []))
 \<and> (new_Image2UrlClient config = Inr this \<longrightarrow>
      this_maxSize this
        = (case maxSizeBytes config of Some m \<Rightarrow> m | None \<Rightarrow> 2 * 1024 * 1024))"
proof -
  have too_large: "toBuffer d \<noteq> [] \<and> this_maxSize this < int (length (toBuffer d)) \<longrightarrow>
      uploadBuffer this env d options = (Inl (FileTooLarge (this_maxSize this)), [])"
    by (simp add: uploadBuffer_too_large)
  have within: "toBuffer d \<noteq> [] \<and> int (length (toBuffer d)) \<le> this_maxSize this \<longrightarrow>
      fst (uploadBuffer this env d options) \<noteq> Inl (FileTooLarge n)
      \<and> fst (uploadBuffer this env d options) \<noteq> Inl EmptyFile
      \<and> (startsWith (resolvedContentType options) ''image/'' \<longrightarrow>
           map Body (snd (uploadBuffer this env d options)) = [toBuffer d])"
  proof
    assume ok: "toBuffer d \<noteq> [] \<and> int (length (toBuffer d)) \<le> this_maxSize this"
    have sent: "startsWith (resolvedContentType options) ''image/'' \<longrightarrow>
           map Body (snd (uploadBuffer this env d options)) = [toBuffer d]"
      using ok uploadBuffer_sends[of d this options env] by auto
    have errs: "fst (uploadBuffer this env d options) \<noteq> Inl (FileTooLarge n)
      \<and> fst (uploadBuffer this env d options) \<noteq> Inl EmptyFile"
      using ok uploadBuffer_Inl_cases[of this env d options "FileTooLarge n"]
        uploadBuffer_Inl_cases[of this env d options EmptyFile]
      by (auto simp: ensureImageContentType_def split: if_splits)
    from sent errs show "fst (uploadBuffer this env d options) \<noteq> Inl (FileTooLarge n)
      \<and> fst (uploadBuffer this env d options) \<noteq> Inl EmptyFile
      \<and> (startsWith (resolvedContentType options) ''image/'' \<longrightarrow>
           map Body (snd (uploadBuffer this env d options)) = [toBuffer d])"
      by blast
  qed
  have empty: "toBuffer d = [] \<longrightarrow> uploadBuffer this env d options = (Inl EmptyFile, [])"
    by (simp add: uploadBuffer_empty)
  have default: "new_Image2UrlClient config = Inr this \<longrightarrow>
      this_maxSize this
        = (case maxSizeBytes config of Some m \<Rightarrow> m | None \<Rightarrow> 2 * 1024 * 1024)"
    using new_client_fields(4)[of config this]
    by (simp add: DEFAULT_MAX_SIZE_def split: option.splits)
  show ?thesis by (intro conjI too_large within empty default)
qed


theorem size_ceiling_witness:
  "uploadBuffer (example_client\<lparr>this_maxSize := 2\<rparr>) example_env (Buffer [1, 2, 3]) no_options
     = (Inl (FileTooLarge 2), [])
 \<and> map Body (snd (uploadBuffer (example_client\<lparr>this_maxSize := 3\<rparr>) example_env
       (Buffer [1, 2, 3]) no_options)) = [[1, 2, 3]]
 \<and> uploadBuffer example_client example_env (Buffer []) no_options = (Inl EmptyFile, [])
 \<and> this_maxSize example_client = 2097152"
  using size_ceiling[where this = "example_client\<lparr>this_maxSize := 2\<rparr>" and env = example_env
      and d = "Buffer [1, 2, 3]" and options = no_options]
    size_ceiling[where this = "example_client\<lparr>this_maxSize := 3\<rparr>" and env = example_env
      and d = "Buffer [1, 2, 3]" and options = no_options]
    size_ceiling[where this = example_client and env = example_env
      and d = "Buffer []" and options = no_options and config = example_config]
    example_client_built
  by (simp add: resolve_defs string_defs table_defs example_defs example_config_def)


subsection \<open>The result of a successful upload\<close>

text \<open>
  Claim C6.  When an upload succeeds, exactly one command was sent and the result
  describes it: \<open>url\<close> is the configured public URL without its trailing slashes, one
  slash, and the object key without its leading slashes (so neither side brings a slash
  of its own to the joint); \<open>key\<close> is the key of the stored object; \<open>bucket\<close> is the
  configured bucket; \<open>size\<close> is the number of bytes of the payload; \<open>type\<close> is the
  resolved content type; and \<open>etag\<close> is the optional \<open>ETag\<close> of the store's answer.
\<close>

theorem upload_result_fields:
  assumes "new_Image2UrlClient config = Inr this"
    and "fst (uploadBuffer this env d options) = Inr r"
  shows "\<exists>cmd. snd (uploadBuffer this env d options) = [cmd]
      \<and> url r = dropTrailingSlashes (publicUrl config) @ ''/'' @ dropLeadingSlashes (Key cmd)
      \<and> \<not> startsWith (rev (dropTrailingSlashes (publicUrl config))) ''/''
      \<and> \<not> startsWith (dropLeadingSlashes (Key cmd)) ''/''
      \<and> result_key r = Key cmd
      \<and> result_bucket r = bucket config \<and> Bucket cmd = bucket config
      \<and> result_size r = length (toBuffer d) \<and> Body cmd = toBuffer d
      \<and> result_type r = resolvedContentType options
      \<and> ContentType cmd = resolvedContentType options
      \<and> send env (this_client this) cmd = PutObjectOutput (etag r)"
proof -
  from uploadBuffer_success[OF assms(2)] obtain cmd where
    sent: "snd (uploadBuffer this env d options) = [cmd]" and
    fields: "send env (this_client this) cmd = PutObjectOutput (etag r)"
      "url r = buildPublicUrl (this_publicUrl this) (Key cmd)"
      "result_key r = Key cmd" "result_bucket r = this_bucket this"
      "result_size r = length (toBuffer d)" "result_type r = resolvedContentType options"
    by blast
  have "url r = dropTrailingSlashes (publicUrl config) @ ''/'' @ dropLeadingSlashes (Key cmd)"
    using fields(2) new_client_fields(2)[OF assms(1)]
    by (simp add: buildPublicUrl_def trimTrailingSlash_def dropTrailingSlashes_idem)
  with sent fields new_client_fields(1)[OF assms(1)] uploadBuffer_sent_command[OF sent]
    no_leading_slash[of "Key cmd"] no_trailing_slash[of "publicUrl config"]
  show ?thesis by simp
qed


theorem upload_result_fields_witness:
  "\<exists>cmd. snd (uploadBuffer example_client example_env (Buffer [1, 2, 3])
               (no_options\<lparr>key := Some (CHR 0x5C # ''cat.png'')\<rparr>)) = [cmd]
      \<and> Key cmd = ''/cat.png'' \<and> Bucket cmd = ''pics'' \<and> Body cmd = [1, 2, 3]
      \<and> ContentType cmd = ''image/jpeg''
      \<and> send example_env (this_client example_client) cmd = PutObjectOutput (Some ''abc123'')"
  using upload_result_fields[OF example_client_built example_upload_result]
  by (auto simp: example_config_def resolve_defs no_options_def)

subsection \<open>Object keys\<close>





text \<open>
  Claim C5, as stated, at a blank key: the caller passes a key of two spaces; the key
  is present (and normalisation would leave it as it is), yet the stored object gets a
  generated key, with the prefix, the clock and the UUID.
\<close>

theorem supplied_key_counterexample:
  "key (no_options\<lparr>key := Some ''  ''\<rparr>) = Some ''  ''
 \<and> map Key (snd (uploadBuffer example_client example_env (Buffer [1, 2, 3])
                  (no_options\<lparr>key := Some ''  ''\<rparr>)))
     = [''images/1700000000000-123e4567-e89b-42d3-a456-426614174000.jpg'']
 \<and> normalizeKey ''  '' = ''  ''"
  by (simp add: module_defs string_defs table_defs example_defs)

text \<open>
  Claim C5, amended.  When the caller gives a key that holds a character other than
  white space, the key of the stored object, and the key of the result, is that key
  after \<open>normalizeKey\<close>: leading slashes removed, then every backslash replaced by a
  slash; nothing else is added.  A key that is empty or blank counts as absent, and the
  key is generated.
\<close>

theorem supplied_key_used:
  assumes "key options = Some k"
    and "snd (uploadBuffer this env d options) = [cmd]"
  shows "(trim k \<noteq> [] \<longrightarrow>
           Key cmd = normalizeKey k
           \<and> (fst (uploadBuffer this env d options) = Inr r \<longrightarrow> result_key r = normalizeKey k))
       \<and> (trim k = [] \<longrightarrow>
           Key cmd = buildKey this env None (originalName options) (resolvedContentType options))
       \<and> normalizeKey k
           = map (\<lambda>c. if c = CHR 0x5C then CHR ''/'' else c) (dropWhile (\<lambda>c. c = CHR ''/'') k)"
proof -
  note sent = uploadBuffer_sent_command[OF assms(2)]
  have k: "Key cmd = buildKey this env (Some k) (originalName options) (resolvedContentType options)"
    using sent(5) assms(1) by simp
  have given: "trim k \<noteq> [] \<longrightarrow> Key cmd = normalizeKey k"
    using k key_given_iff[of k] by (auto simp: buildKey_def Let_def)
  have res: "fst (uploadBuffer this env d options) = Inr r \<longrightarrow> result_key r = Key cmd"
    using uploadBuffer_success[of this env d options r] assms(2) by auto
  have blank: "trim k = [] \<longrightarrow>
      Key cmd = buildKey this env None (originalName options) (resolvedContentType options)"
    using k key_given_iff[of k] by (auto simp: buildKey_def Let_def)
  have norm: "normalizeKey k
      = map (\<lambda>c. if c = CHR 0x5C then CHR ''/'' else c) (dropWhile (\<lambda>c. c = CHR ''/'') k)"
    by (simp add: normalizeKey_def dropLeadingSlashes_def is_slash_def[abs_def])
  from given res blank norm show ?thesis by simp
qed

theorem supplied_key_used_witness:
  "key (no_options\<lparr>key := Some (''//photos'' @ [CHR 0x5C] @ ''cat.png'')\<rparr>)
     = Some (''//photos'' @ [CHR 0x5C] @ ''cat.png'')
 \<and> trim (''//photos'' @ [CHR 0x5C] @ ''cat.png'') \<noteq> []
 \<and> (\<exists>cmd. snd (uploadBuffer example_client example_env (Buffer [1, 2, 3])
                 (no_options\<lparr>key := Some (''//photos'' @ [CHR 0x5C] @ ''cat.png'')\<rparr>)) = [cmd]
       \<and> Key cmd = normalizeKey (''//photos'' @ [CHR 0x5C] @ ''cat.png''))
 \<and> normalizeKey (''//photos'' @ [CHR 0x5C] @ ''cat.png'') = ''photos/cat.png''"
proof -
  from supplied_key_used[OF example_key_present example_supplied_key]
    example_key_not_blank
  have "Key \<lparr>Bucket = ''pics'',
         Key = ''photos/cat.png'',
         Body = [1, 2, 3],
         ContentType = ''image/jpeg'',
         ContentLength = 3,
         CacheControl = ''public, max-age=31536000'',
         Metadata = [''upload-time'' \<mapsto> ''2023-11-14T22:13:20.000Z'']\<rparr>
       = normalizeKey (''//photos'' @ [CHR 0x5C] @ ''cat.png'')"
    by blast
  with example_key_not_blank example_key_present example_key_normalized
    example_supplied_key show ?thesis by blast
qed


subsection \<open>The default content type\<close>

text \<open>
  Claim C9, as stated, at an empty content type: the caller passes the empty string
  as \<open>contentType\<close>; it is not \<open>undefined\<close>, so no default replaces it, and
  \<open>ensureImageContentType\<close> takes its first branch: the upload fails with the
  undetermined-content-type error.
\<close>

theorem default_content_type_counterexample:
  "contentType (no_options\<lparr>contentType := Some ''''\<rparr>) = Some ''''
 \<and> uploadBuffer example_client example_env (Buffer [1, 2, 3])
       (no_options\<lparr>contentType := Some ''''\<rparr>) = (Inl UndeterminedContentType, [])"
  by (simp add: module_defs example_defs)

text \<open>
  Claim C9, amended.  When no content type is supplied and the original file name is
  absent or has an extension the extension-to-MIME table does not hold, the content type
  resolves to \<open>image/jpeg\<close>, and a payload that passes the size checks is sent with it.
  The undetermined-content-type error is returned by \<open>uploadBuffer\<close> exactly when the
  payload passes the size checks and the caller supplies the empty string as content
  type.
\<close>

theorem default_content_type:
  "(contentType options = None
    \<and> (originalName options = None
        \<or> (\<exists>n. originalName options = Some n
               \<and> map_of MIME_BY_EXT (toLowerCase (extname n)) = None)) \<longrightarrow>
      resolvedContentType options = ''image/jpeg''
      \<and> (toBuffer d \<noteq> [] \<and> int (length (toBuffer d)) \<le> this_maxSize this \<longrightarrow>
           map ContentType (snd (uploadBuffer this env d options)) = [''image/jpeg'']))
 \<and> (fst (uploadBuffer this env d options) = Inl UndeterminedContentType \<longleftrightarrow>
      toBuffer d \<noteq> [] \<and> int (length (toBuffer d)) \<le> this_maxSize this
      \<and> contentType options = Some [])"
proof -
  have jpeg: "contentType options = None
    \<and> (originalName options = None
        \<or> (\<exists>n. originalName options = Some n
               \<and> map_of MIME_BY_EXT (toLowerCase (extname n)) = None)) \<longrightarrow>
      resolvedContentType options = ''image/jpeg''
      \<and> (toBuffer d \<noteq> [] \<and> int (length (toBuffer d)) \<le> this_maxSize this \<longrightarrow>
           map ContentType (snd (uploadBuffer this env d options)) = [''image/jpeg''])"
  proof
    assume h: "contentType options = None
      \<and> (originalName options = None
          \<or> (\<exists>n. originalName options = Some n
                 \<and> map_of MIME_BY_EXT (toLowerCase (extname n)) = None))"
    then have "guessContentType (originalName options) = None"
      using guessContentType_None[of "originalName options"] by blast
    with h have r: "resolvedContentType options = ''image/jpeg''"
      by (simp add: resolvedContentType_def)
    then have "startsWith (resolvedContentType options) ''image/''"
      by (simp add: startsWith_def)
    with r uploadBuffer_image[of options d this env]
    show "resolvedContentType options = ''image/jpeg''
      \<and> (toBuffer d \<noteq> [] \<and> int (length (toBuffer d)) \<le> this_maxSize this \<longrightarrow>
           map ContentType (snd (uploadBuffer this env d options)) = [''image/jpeg''])"
      by simp
  qed
  have undetermined: "fst (uploadBuffer this env d options) = Inl UndeterminedContentType \<longleftrightarrow>
      toBuffer d \<noteq> [] \<and> int (length (toBuffer d)) \<le> this_maxSize this
      \<and> contentType options = Some []"
  proof
    assume "fst (uploadBuffer this env d options) = Inl UndeterminedContentType"
    from uploadBuffer_Inl_cases[OF this]
    have "toBuffer d \<noteq> [] \<and> int (length (toBuffer d)) \<le> this_maxSize this
        \<and> ensureImageContentType (resolvedContentType options) = Inl UndeterminedContentType"
      by auto
    then show "toBuffer d \<noteq> [] \<and> int (length (toBuffer d)) \<le> this_maxSize this
        \<and> contentType options = Some []"
      using resolvedContentType_empty[of options]
      by (auto simp: ensureImageContentType_def split: if_splits)
  next
    assume h: "toBuffer d \<noteq> [] \<and> int (length (toBuffer d)) \<le> this_maxSize this
        \<and> contentType options = Some []"
    then have "ensureImageContentType (resolvedContentType options) = Inl UndeterminedContentType"
      using resolvedContentType_empty[of options] by (simp add: ensureImageContentType_def)
    with h show "fst (uploadBuffer this env d options) = Inl UndeterminedContentType"
      by (simp add: uploadBuffer_rejected_type)
  qed
  from jpeg undetermined show ?thesis by (rule conjI)
qed

theorem default_content_type_witness:
  "resolvedContentType (no_options\<lparr>originalName := Some ''notes.txt''\<rparr>) = ''image/jpeg''
 \<and> map ContentType (snd (uploadBuffer example_client example_env (Buffer [1, 2, 3])
       (no_options\<lparr>originalName := Some ''notes.txt''\<rparr>))) = [''image/jpeg'']
 \<and> fst (uploadBuffer example_client example_env (Buffer [1, 2, 3])
       (no_options\<lparr>contentType := Some ''''\<rparr>)) = Inl UndeterminedContentType"
  using default_content_type[where options = "no_options\<lparr>originalName := Some ''notes.txt''\<rparr>"
      and this = example_client and env = example_env and d = "Buffer [1, 2, 3]"]
    default_content_type[where options = "no_options\<lparr>contentType := Some ''''\<rparr>"
      and this = example_client and env = example_env and d = "Buffer [1, 2, 3]"]
  by (simp add: no_options_def example_client_def toBuffer_def string_defs table_defs)


subsection \<open>The command sent to the store\<close>

text \<open>
  Claim C8, as stated, at caller metadata that names \<open>upload-time\<close>: the caller passes
  the pair \<open>upload-time\<close>, \<open>yesterday\<close>; the upload succeeds, and the metadata of the
  command sent holds the clock's time under that name, not the caller's value.
\<close>

theorem put_object_command_counterexample:
  "example_metadata ''upload-time'' = Some ''yesterday''
 \<and> fst (uploadBuffer example_client example_env (Buffer [1, 2, 3])
          (no_options\<lparr>originalName := Some ''cat.png'', metadata := Some example_metadata\<rparr>))
     = Inr \<lparr>url = ''https://cdn.example.com/images/1700000000000-123e4567-e89b-42d3-a456-426614174000.png'',
            result_key = ''images/1700000000000-123e4567-e89b-42d3-a456-426614174000.png'',
            result_bucket = ''pics'',
            result_size = 3,
            result_type = ''image/png'',
            etag = Some ''abc123''\<rparr>
 \<and> map (\<lambda>cmd. Metadata cmd ''upload-time'')
       (snd (uploadBuffer example_client example_env (Buffer [1, 2, 3])
          (no_options\<lparr>originalName := Some ''cat.png'', metadata := Some example_metadata\<rparr>)))
     = [Some ''2023-11-14T22:13:20.000Z'']"
  by (simp add: example_overwritten_metadata example_metadata_success)
    (simp add: example_metadata_def)

text \<open>
  Claim C8, amended.  A successful upload has sent exactly one PutObject command.  Its
  cache-control header is the configured \<open>cacheControl\<close>, or
  \<open>public, max-age=31536000\<close> when that field is absent.  Its metadata holds the upload
  time under \<open>upload-time\<close>; the original file name under \<open>original-name\<close> when a
  non-empty name is known; every pair of the caller whose name is not \<open>upload-time\<close>
  and, when a file name is known, not \<open>original-name\<close>; and nothing else.
\<close>

theorem put_object_command:
  assumes "new_Image2UrlClient config = Inr this"
    and "fst (uploadBuffer this env d options) = Inr r"
  shows "\<exists>cmd. snd (uploadBuffer this env d options) = [cmd]
      \<and> CacheControl cmd
          = (case cacheControl config of Some c \<Rightarrow> c | None \<Rightarrow> ''public, max-age=31536000'')
      \<and> Metadata cmd ''upload-time'' = Some (toISOString env)
      \<and> (\<forall>n. originalName options = Some n \<and> n \<noteq> [] \<longrightarrow>
             Metadata cmd ''original-name'' = Some n)
      \<and> (\<forall>m k v. metadata options = Some m \<and> m k = Some v \<and> k \<noteq> ''upload-time''
             \<and> (k \<noteq> ''original-name'' \<or> originalName options = None
                 \<or> originalName options = Some []) \<longrightarrow>
             Metadata cmd k = Some v)
      \<and> (\<forall>k v. Metadata cmd k = Some v \<and> k \<noteq> ''upload-time'' \<and> k \<noteq> ''original-name'' \<longrightarrow>
             (\<exists>m. metadata options = Some m \<and> m k = Some v))"
proof -
  from uploadBuffer_success[OF assms(2)] obtain cmd where
    sent: "snd (uploadBuffer this env d options) = [cmd]" by blast
  note cmd = uploadBuffer_sent_command[OF sent]
  have cache: "CacheControl cmd
      = (case cacheControl config of Some c \<Rightarrow> c | None \<Rightarrow> ''public, max-age=31536000'')"
    using cmd(9) new_client_fields(5)[OF assms(1)]
    by (simp add: DEFAULT_CACHE_CONTROL_def split: option.splits)
  have look: "\<And>k. Metadata cmd k =
     (if k = ''upload-time'' then Some (toISOString env)
      else if k = ''original-name'' \<and> originalName options \<noteq> None
              \<and> originalName options \<noteq> Some [] then originalName options
      else case metadata options of None \<Rightarrow> None | Some m \<Rightarrow> m k)"
    using cmd(10) by (simp only: buildMetadata_lookup)
  have time: "Metadata cmd ''upload-time'' = Some (toISOString env)"
    by (simp add: look)
  have name: "\<forall>n. originalName options = Some n \<and> n \<noteq> [] \<longrightarrow>
             Metadata cmd ''original-name'' = Some n"
    by (simp add: look)
  have given: "\<forall>m k v. metadata options = Some m \<and> m k = Some v \<and> k \<noteq> ''upload-time''
             \<and> (k \<noteq> ''original-name'' \<or> originalName options = None
                 \<or> originalName options = Some []) \<longrightarrow>
             Metadata cmd k = Some v"
    by (auto simp: look)
  have only: "\<forall>k v. Metadata cmd k = Some v \<and> k \<noteq> ''upload-time'' \<and> k \<noteq> ''original-name'' \<longrightarrow>
             (\<exists>m. metadata options = Some m \<and> m k = Some v)"
    by (auto simp: look split: option.splits)
  from sent cache time name given only show ?thesis by blast
qed

theorem put_object_command_witness:
  "\<exists>cmd. snd (uploadBuffer example_client example_env (Buffer [1, 2, 3])
                 (no_options\<lparr>originalName := Some ''cat.png'',
                             metadata := Some example_metadata\<rparr>)) = [cmd]
      \<and> CacheControl cmd = ''public, max-age=31536000''
      \<and> Metadata cmd ''upload-time'' = Some ''2023-11-14T22:13:20.000Z''
      \<and> Metadata cmd ''original-name'' = Some ''cat.png''
      \<and> Metadata cmd ''author'' = Some ''me''"
proof -
  from put_object_command[OF example_client_built example_metadata_success]
  obtain cmd where
    sent: "snd (uploadBuffer example_client example_env (Buffer [1, 2, 3])
                 (no_options\<lparr>originalName := Some ''cat.png'',
                             metadata := Some example_metadata\<rparr>)) = [cmd]"
    and cache: "CacheControl cmd
          = (case cacheControl example_config of Some c \<Rightarrow> c
             | None \<Rightarrow> ''public, max-age=31536000'')"
    and time: "Metadata cmd ''upload-time'' = Some (toISOString example_env)"
    and name: "\<forall>n. originalName (no_options\<lparr>originalName := Some ''cat.png'',
                             metadata := Some example_metadata\<rparr>) = Some n \<and> n \<noteq> [] \<longrightarrow>
             Metadata cmd ''original-name'' = Some n"
    and given: "\<forall>m k v. metadata (no_options\<lparr>originalName := Some ''cat.png'',
                             metadata := Some example_metadata\<rparr>) = Some m \<and> m k = Some v
             \<and> k \<noteq> ''upload-time''
             \<and> (k \<noteq> ''original-name''
                 \<or> originalName (no_options\<lparr>originalName := Some ''cat.png'',
                             metadata := Some example_metadata\<rparr>) = None
                 \<or> originalName (no_options\<lparr>originalName := Some ''cat.png'',
                             metadata := Some example_metadata\<rparr>) = Some []) \<longrightarrow>
             Metadata cmd k = Some v"
    by blast
  have "CacheControl cmd = ''public, max-age=31536000''"
    using cache by (simp add: example_config_def)
  moreover have "Metadata cmd ''upload-time'' = Some ''2023-11-14T22:13:20.000Z''"
    using time by (simp add: example_env_def)
  moreover have "Metadata cmd ''original-name'' = Some ''cat.png''"
    using name by (simp add: no_options_def)
  moreover have "Metadata cmd ''author'' = Some ''me''"
    using given[rule_format, of example_metadata "''author''" "''me''"]
    by (simp add: no_options_def example_metadata_def)
  ultimately show ?thesis using sent by blast
qed


subsection \<open>Text that is not base64\<close>

text \<open>
  Claim C7, as stated, at the text \<open>a$b\<close>: it is not a data URI and it holds a
  character outside the base64 alphabets, padding and white space; yet \<open>uploadBase64\<close>
  raises no error: the decoder skips the dollar sign, one byte comes out, and the upload
  succeeds with one command sent.
\<close>

theorem undecodable_base64_counterexample:
  "\<not> only_base64_characters ''a$b''
 \<and> dataUriMatch (trim ''a$b'') = None
 \<and> fst (uploadBase64 example_client example_env ''a$b'' no_options)
     = Inr \<lparr>url = ''https://cdn.example.com/images/1700000000000-123e4567-e89b-42d3-a456-426614174000.jpg'',
            result_key = ''images/1700000000000-123e4567-e89b-42d3-a456-426614174000.jpg'',
            result_bucket = ''pics'',
            result_size = 1,
            result_type = ''image/jpeg'',
            etag = Some ''abc123''\<rparr>
 \<and> map Body (snd (uploadBase64 example_client example_env ''a$b'' no_options)) = [[105]]"
  by (simp add: dollar_not_base64 dollar_not_data_uri uploadBase64_def decode_dollar
      example_dollar_options example_dollar_upload)

text \<open>
  Claim C7, amended.  \<open>uploadBase64\<close> has no error of its own for text that is not
  base64: decoding never fails.  Text from which no byte can be decoded (in particular
  text without any character of the base64 alphabets) is rejected with the empty-file
  error and nothing is sent.  Any other text is treated as the bytes the lenient decoder
  gives: within the size ceiling and with an image content type they are sent, and the
  only validation errors are those of \<open>uploadBuffer\<close> (empty, too large, content type
  undetermined or not an image), each before any command is sent.
\<close>

theorem base64_decoding_is_lenient:
  "(decoded_buffer (decodeBase64 base64) = [] \<longrightarrow>
      uploadBase64 this env base64 options = (Inl EmptyFile, []))
 \<and> (list_all (\<lambda>c. unbase64 c = None) (trim base64) \<longrightarrow>
      decoded_buffer (decodeBase64 base64) = [])
 \<and> (decoded_buffer (decodeBase64 base64) \<noteq> []
      \<and> int (length (decoded_buffer (decodeBase64 base64))) \<le> this_maxSize this
      \<and> startsWith (resolvedContentType (uploadBase64_options (decodeBase64 base64) options))
            ''image/'' \<longrightarrow>
      map Body (snd (uploadBase64 this env base64 options))
        = [decoded_buffer (decodeBase64 base64)])
 \<and> (fst (uploadBase64 this env base64 options) = Inl e \<and> validation_error e \<longrightarrow>
      snd (uploadBase64 this env base64 options) = []
      \<and> (e = EmptyFile \<or> e = FileTooLarge (this_maxSize this) \<or> e = UndeterminedContentType
          \<or> e = NotAnImage
                 (resolvedContentType (uploadBase64_options (decodeBase64 base64) options))))"
proof -
  let ?dec = "decodeBase64 base64"
  let ?opts = "uploadBase64_options ?dec options"
  have unfold: "uploadBase64 this env base64 options
      = uploadBuffer this env (Buffer (decoded_buffer ?dec)) ?opts"
    by (simp add: uploadBase64_def Let_def)
  have empty: "decoded_buffer ?dec = [] \<longrightarrow>
      uploadBase64 this env base64 options = (Inl EmptyFile, [])"
    by (simp add: unfold uploadBuffer_empty toBuffer_def)
  have none: "list_all (\<lambda>c. unbase64 c = None) (trim base64) \<longrightarrow> decoded_buffer ?dec = []"
    using no_alphabet_empty_buffer[of base64] by blast
  have sent: "decoded_buffer ?dec \<noteq> []
      \<and> int (length (decoded_buffer ?dec)) \<le> this_maxSize this
      \<and> startsWith (resolvedContentType ?opts) ''image/'' \<longrightarrow>
      map Body (snd (uploadBase64 this env base64 options)) = [decoded_buffer ?dec]"
    using uploadBuffer_sends[of "Buffer (decoded_buffer ?dec)" this ?opts env]
    by (auto simp: unfold toBuffer_def)
  have errors: "fst (uploadBase64 this env base64 options) = Inl e \<and> validation_error e \<longrightarrow>
      snd (uploadBase64 this env base64 options) = []
      \<and> (e = EmptyFile \<or> e = FileTooLarge (this_maxSize this) \<or> e = UndeterminedContentType
          \<or> e = NotAnImage (resolvedContentType ?opts))"
  proof
    assume h: "fst (uploadBase64 this env base64 options) = Inl e \<and> validation_error e"
    then have e: "fst (uploadBuffer this env (Buffer (decoded_buffer ?dec)) ?opts) = Inl e"
      by (simp add: unfold)
    have unsent: "snd (uploadBase64 this env base64 options) = []"
      using h uploadBase64_error_cases[of this env base64 options e] by blast
    have "e = EmptyFile \<or> e = FileTooLarge (this_maxSize this) \<or> e = UndeterminedContentType
          \<or> e = NotAnImage (resolvedContentType ?opts)"
      using uploadBuffer_Inl_cases[OF e] h
      by (auto simp: ensureImageContentType_def split: if_splits)
    with unsent show "snd (uploadBase64 this env base64 options) = []
      \<and> (e = EmptyFile \<or> e = FileTooLarge (this_maxSize this) \<or> e = UndeterminedContentType
          \<or> e = NotAnImage (resolvedContentType ?opts))"
      by blast
  qed
  show ?thesis by (intro conjI empty none sent errors)
qed

theorem base64_decoding_is_lenient_witness:
  "uploadBase64 example_client example_env ''!!!!'' no_options = (Inl EmptyFile, [])
 \<and> decoded_buffer (decodeBase64 ''!!!!'') = []
 \<and> map Body (snd (uploadBase64 example_client example_env ''a$b'' no_options)) = [[105]]
 \<and> snd (uploadBase64 example_client example_env ''data:text/plain;base64,QUJD'' no_options) = []"
  using base64_decoding_is_lenient[where ?base64.0 = "''!!!!''" and this = example_client
      and env = example_env and options = no_options]
    base64_decoding_is_lenient[where ?base64.0 = "''a$b''" and this = example_client
      and env = example_env and options = no_options]
    base64_decoding_is_lenient[where ?base64.0 = "''data:text/plain;base64,QUJD''"
      and this = example_client and env = example_env and options = no_options
      and e = "NotAnImage ''text/plain''"]
    bangs_no_alphabet example_base64_not_image
  by (simp add: decode_dollar decode_bangs example_dollar_options resolve_defs no_options_def
      example_client_def startsWith_def)


end
